theory Spec2Isabelle
  imports
    Complex_Main
    "HOL-Library.Char_ord"
    "HOL-Library.List_Lexorder"
    "HOL-Library.Option_ord"
    "HOL-Library.Product_Lexorder"
    "HOL-Library.Multiset"
begin

section \<open>Data model\<close>

text \<open>
  The documents of the store, as the controllers read and write them.  A JavaScript
  Number is modelled as an exact rational (sums and products are exact; rounding of
  binary floating point is outside the model), a document count as a natural number,
  an ObjectId as a natural number, and a Date as its time value: the integer number of
  milliseconds since the epoch.  Fields the controllers under study never touch
  (supplier, unit, customer data, cashier, payment method) are left out.
\<close>

type_synonym objectId = nat
type_synonym date = int

record pricingEntry =
  basePrice :: rat
  entryMarkupPercentage :: rat
  updatedAt :: date

text \<open>
  \<open>category\<close> and \<open>productCreatedAt\<close> are \<open>None\<close> where the document holds no such
  field (undefined or null); a document without \<open>pricingHistory\<close> has the empty list.
\<close>

record product =
  product_id :: objectId
  name :: string
  category :: "string option"
  price :: rat
  markupPercentage :: rat
  stockQuantity :: rat
  lowStockThreshold :: rat
  isActive :: bool
  productCreatedAt :: "date option"
  pricingHistory :: "pricingEntry list"

record saleItem =
  itemProduct :: objectId
  quantity :: rat
  subtotal :: rat

record sale =
  sale_id :: objectId
  createdAt :: date
  isVoid :: bool
  items :: "saleItem list"
  total :: rat
  tax :: rat

text \<open>
  The two collections.  Documents come back from a query without a sort stage in the
  order of the list.
\<close>

record db =
  saleDocs :: "sale list"
  productDocs :: "product list"

section \<open>Inventory report\<close>

text \<open>
  \<open>getInventoryReport\<close>: \<open>Product.find({ isActive: true }).sort({ category: 1, name: 1 })\<close>,
  then a \<open>reduce\<close>, two \<open>filter\<close>s and a \<open>forEach\<close> that fills the object \<open>byCategory\<close>.
  The sort is the stable sort on the pair (category, name), a missing category first.
  \<open>byCategory\<close> is a plain object \<open>{}\<close>; the map holds its own properties, which are
  what the response carries.
\<close>

record categoryRollup =
  rollupCount :: nat
  totalValue :: rat

record lowStockRow =
  low_id :: objectId
  low_name :: string
  low_stockQuantity :: rat
  low_lowStockThreshold :: rat

record outOfStockRow =
  out_id :: objectId
  out_name :: string

record inventorySummary =
  totalProducts :: nat
  totalStockValue :: rat
  lowStockCount :: nat
  outOfStockCount :: nat

record inventoryReport =
  inv_summary :: inventorySummary
  byCategory :: "string \<rightharpoonup> categoryRollup"
  lowStockProducts :: "lowStockRow list"
  outOfStockProducts :: "outOfStockRow list"
  inv_data :: "product list"

text \<open>\<open>product.category || 'Uncategorized'\<close>: a missing or empty category is falsy.\<close>

definition categoryOrDefault :: "product \<Rightarrow> string" where
  "categoryOrDefault p =
     (case category p of None \<Rightarrow> ''Uncategorized''
      | Some c \<Rightarrow> if c = [] then ''Uncategorized'' else c)"

definition findActiveProducts :: "product list \<Rightarrow> product list" where
  "findActiveProducts ps = sort_key (\<lambda>p. (category p, name p)) (filter isActive ps)"

text \<open>
  The names every plain object inherits from \<open>Object.prototype\<close>.  For such a name
  \<open>byCategory[category]\<close> reads the inherited function or object, which is truthy: the
  test \<open>!byCategory[category]\<close> fails, no bucket is created, and the two \<open>+=\<close> write
  \<open>count\<close> and \<open>totalValue\<close> onto the inherited value, not into \<open>byCategory\<close>.
\<close>

definition inheritedProperty :: "string \<Rightarrow> bool" where
  "inheritedProperty c \<longleftrightarrow>
     c \<in> set [''constructor'', ''__defineGetter__'', ''__defineSetter__'', ''hasOwnProperty'',
              ''__lookupGetter__'', ''__lookupSetter__'', ''isPrototypeOf'',
              ''propertyIsEnumerable'', ''toString'', ''valueOf'', ''__proto__'',
              ''toLocaleString'']"

definition addToCategory ::
  "product \<Rightarrow> (string \<rightharpoonup> categoryRollup) \<Rightarrow> (string \<rightharpoonup> categoryRollup)" where
  "addToCategory p byCat =
     (let c = categoryOrDefault p in
      if inheritedProperty c then byCat
      else
        (let cur = (case byCat c of None \<Rightarrow> \<lparr>rollupCount = 0, totalValue = 0\<rparr>
                    | Some r \<Rightarrow> r)
         in byCat(c \<mapsto> \<lparr>rollupCount = rollupCount cur + 1,
                         totalValue = totalValue cur + price p * stockQuantity p\<rparr>)))"

definition lowStockRowOf :: "product \<Rightarrow> lowStockRow" where
  "lowStockRowOf p =
     \<lparr>low_id = product_id p, low_name = name p,
      low_stockQuantity = stockQuantity p,
      low_lowStockThreshold = lowStockThreshold p\<rparr>"

definition outOfStockRowOf :: "product \<Rightarrow> outOfStockRow" where
  "outOfStockRowOf p = \<lparr>out_id = product_id p, out_name = name p\<rparr>"

definition getInventoryReport :: "db \<Rightarrow> inventoryReport" where
  "getInventoryReport d =
     (let products = findActiveProducts (productDocs d);
          lowStock = filter (\<lambda>p. stockQuantity p \<le> lowStockThreshold p) products;
          outOfStock = filter (\<lambda>p. stockQuantity p = 0) products
      in \<lparr>inv_summary =
            \<lparr>totalProducts = length products,
             totalStockValue = fold (\<lambda>p s. s + price p * stockQuantity p) products 0,
             lowStockCount = length lowStock,
             outOfStockCount = length outOfStock\<rparr>,
          byCategory = fold addToCategory products Map.empty,
          lowStockProducts = map lowStockRowOf lowStock,
          outOfStockProducts = map outOfStockRowOf outOfStock,
          inv_data = products\<rparr>)"

section \<open>Date ranges and the environment\<close>

text \<open>
  \<open>TZ\<close> is \<open>process.env.TZ\<close>.  \<open>localOffset\<close> is the offset of the server's local time
  from UTC in milliseconds, which \<open>Date.prototype.setHours\<close> works in; it is taken as
  constant over the dates of a request (no daylight-saving change).  The strings
  \<open>startDate\<close> and \<open>endDate\<close> of a query are modelled by the time values that
  \<open>new Date(...)\<close> parses them to, \<open>None\<close> where the parameter is missing or empty.
\<close>

record env =
  TZ :: "string option"
  localOffset :: int

definition msPerDay :: int where
  "msPerDay = 86400000"

text \<open>\<open>end.setHours(23, 59, 59, 999)\<close>: the same local day, at its last millisecond.\<close>

definition setHours_23_59_59_999 :: "env \<Rightarrow> date \<Rightarrow> date" where
  "setHours_23_59_59_999 e t =
     (let l = t + localOffset e in l - l mod msPerDay + 86399999 - localOffset e)"

text \<open>\<open>process.env.TZ || 'Asia/Manila'\<close>\<close>

definition timezone :: "env \<Rightarrow> string" where
  "timezone e = (case TZ e of None \<Rightarrow> ''Asia/Manila''
                 | Some z \<Rightarrow> if z = [] then ''Asia/Manila'' else z)"

text \<open>
  \<open>$match: { createdAt: { $gte: start, $lte: end }, isVoid: false }\<close>
\<close>

definition matchSale :: "date \<Rightarrow> date \<Rightarrow> sale \<Rightarrow> bool" where
  "matchSale start end' s \<longleftrightarrow> start \<le> createdAt s \<and> createdAt s \<le> end' \<and> isVoid s = False"

text \<open>
  \<open>$group\<close> by a key: one group for each key value that occurs, holding the documents
  with that key in their order.  The store emits the groups in no specified order;
  every use below sorts them.
\<close>

definition groupBy :: "('a \<Rightarrow> 'k) \<Rightarrow> 'a list \<Rightarrow> ('k \<times> 'a list) list" where
  "groupBy f xs = map (\<lambda>k. (k, filter (\<lambda>x. f x = k) xs)) (remdups (map f xs))"

datatype httpError = BadRequest | NotFound

section \<open>Sales report\<close>

record dateRangeQuery =
  startDate :: "date option"
  endDate :: "date option"

record summaryGroup =
  g_totalSales :: nat
  g_totalRevenue :: rat
  g_totalVAT :: rat

record dateBucket =
  bucketCount :: nat
  revenue :: rat

record salesSummary =
  totalSales :: nat
  totalRevenue :: rat
  totalVAT :: rat
  totalCOGS :: rat
  profit :: rat

record salesReport =
  summary :: salesSummary
  salesByDate :: "string \<rightharpoonup> dateBucket"
  report_data :: "sale list"

text \<open>\<open>$group: { _id: null, ... }\<close>: one document when any sale matched, none otherwise.\<close>

definition summaryResult :: "sale list \<Rightarrow> summaryGroup list" where
  "summaryResult matched =
     (if matched = [] then []
      else [\<lparr>g_totalSales = length matched,
             g_totalRevenue = sum_list (map total matched),
             g_totalVAT = sum_list (map tax matched)\<rparr>])"

text \<open>
  The second pipeline: \<open>$dateToString\<close> of the store is the parameter \<open>dateToString\<close>
  (format, timezone, date), then \<open>$group\<close> by the date string and \<open>$sort: { _id: 1 }\<close>.
\<close>

definition salesByDateResult ::
  "(string \<Rightarrow> string \<Rightarrow> date \<Rightarrow> string) \<Rightarrow> env \<Rightarrow> sale list \<Rightarrow> (string \<times> dateBucket) list" where
  "salesByDateResult dateToString e matched =
     sort_key fst
       (map (\<lambda>(k, g). (k, \<lparr>bucketCount = length g, revenue = sum_list (map total g)\<rparr>))
          (groupBy (\<lambda>s. dateToString ''%Y-%m-%d'' (timezone e) (createdAt s)) matched))"

text \<open>
  The third query: \<open>Sale.find(...).sort({ createdAt: -1 }).limit(100)\<close>.  Among sales of
  equal \<open>createdAt\<close> the store fixes no order; the model takes the reverse of the stable
  ascending sort.  The documents are kept as stored: the names that \<open>populate\<close> adds
  for the response are left out, and what it does to the product reference of a line
  item is \<open>populatedProductId\<close> below.
\<close>

definition findSales :: "date \<Rightarrow> date \<Rightarrow> db \<Rightarrow> sale list" where
  "findSales start end' d =
     take 100 (rev (sort_key createdAt (filter (matchSale start end') (saleDocs d))))"

text \<open>
  \<open>populate('items.product', 'name')\<close> replaces the reference of a line item by the
  product document, or by null when no product has that id;
  \<open>item.product?._id || item.product\<close> then reads the id back.
\<close>

definition populatedProductId :: "db \<Rightarrow> saleItem \<Rightarrow> objectId option" where
  "populatedProductId d it =
     map_option product_id (find (\<lambda>p. product_id p = itemProduct it) (productDocs d))"

definition collectProductIds :: "db \<Rightarrow> sale list \<Rightarrow> objectId list" where
  "collectProductIds d sales =
     fold (\<lambda>s ids.
        fold (\<lambda>it ids'.
          (case populatedProductId d it of
             None \<Rightarrow> ids'
           | Some i \<Rightarrow> if i \<in> set ids' then ids' else ids' @ [i])) (items s) ids) sales []"

text \<open>\<open>new Map(products.map(p => [p._id.toString(), p]))\<close>: a later pair replaces an earlier one.\<close>

definition productMap :: "product list \<Rightarrow> (objectId \<rightharpoonup> product)" where
  "productMap products = map_of (rev (map (\<lambda>p. (product_id p, p)) products))"

definition calculateCOGS :: "db \<Rightarrow> sale list \<Rightarrow> rat" where
  "calculateCOGS d sales =
     (if sales \<noteq> [] then
        (let productIds = collectProductIds d sales in
         if productIds \<noteq> [] then
           (let products = filter (\<lambda>p. product_id p \<in> set productIds) (productDocs d);
                pm = productMap products
            in fold (\<lambda>s acc.
                 fold (\<lambda>it acc'.
                   (case populatedProductId d it of
                      None \<Rightarrow> acc'
                    | Some i \<Rightarrow>
                        (case pm i of
                           None \<Rightarrow> acc'
                         | Some p \<Rightarrow> acc' + price p * quantity it))) (items s) acc) sales 0)
         else 0)
      else 0)"

definition getSalesReport ::
  "(string \<Rightarrow> string \<Rightarrow> date \<Rightarrow> string) \<Rightarrow> env \<Rightarrow> db \<Rightarrow> dateRangeQuery \<Rightarrow> httpError + salesReport" where
  "getSalesReport dateToString e d q =
     (case (startDate q, endDate q) of
        (Some start, Some endD) \<Rightarrow>
          (let end' = setHours_23_59_59_999 e endD;
               matched = filter (matchSale start end') (saleDocs d);
               sales = findSales start end' d;
               sm = (case summaryResult matched of
                       [] \<Rightarrow> \<lparr>g_totalSales = 0, g_totalRevenue = 0, g_totalVAT = 0\<rparr>
                     | g # _ \<Rightarrow> g);
               byDate = fold (\<lambda>item m. m(fst item \<mapsto> snd item))
                          (salesByDateResult dateToString e matched) Map.empty;
               cogs = calculateCOGS d sales
           in Inr \<lparr>summary =
                     \<lparr>totalSales = g_totalSales sm,
                      totalRevenue = g_totalRevenue sm,
                      totalVAT = g_totalVAT sm,
                      totalCOGS = cogs,
                      profit = g_totalRevenue sm - cogs\<rparr>,
                   salesByDate = byDate,
                   report_data = sales\<rparr>)
      | _ \<Rightarrow> Inl BadRequest)"

text \<open>
  What one line item adds to \<open>totalCOGS\<close> in the inner loop of the report: the price of
  the product it refers to times its quantity when the product resolves, nothing
  otherwise.
\<close>

definition lineCost :: "db \<Rightarrow> saleItem \<Rightarrow> rat" where
  "lineCost d it = (case find (\<lambda>p. product_id p = itemProduct it) (productDocs d) of
                      None \<Rightarrow> 0 | Some p \<Rightarrow> price p * quantity it)"


section \<open>Revenue trends\<close>

record trendsQuery =
  trendStartDate :: "date option"
  trendEndDate :: "date option"
  groupByParam :: "string option"

record trendRow =
  trendDate :: string
  trendRevenue :: rat
  trendSales :: nat

text \<open>The parameter \<open>groupBy\<close> defaults to \<open>'day'\<close> when it is missing.\<close>

definition dateFormat :: "string option \<Rightarrow> string" where
  "dateFormat g =
     (let groupBy' = (case g of None \<Rightarrow> ''day'' | Some x \<Rightarrow> x) in
      if groupBy' = ''day'' then ''%Y-%m-%d''
      else if groupBy' = ''week'' then ''%Y-%U''
      else if groupBy' = ''month'' then ''%Y-%m''
      else ''%Y-%m-%d'')"

definition getRevenueTrends ::
  "(string \<Rightarrow> string \<Rightarrow> date \<Rightarrow> string) \<Rightarrow> env \<Rightarrow> db \<Rightarrow> trendsQuery \<Rightarrow> httpError + trendRow list" where
  "getRevenueTrends dateToString e d q =
     (case (trendStartDate q, trendEndDate q) of
        (Some start, Some endD) \<Rightarrow>
          (let end' = setHours_23_59_59_999 e endD;
               fmt = dateFormat (groupByParam q);
               tz = timezone e;
               matched = filter (matchSale start end') (saleDocs d)
           in Inr (sort_key trendDate
                (map (\<lambda>(k, g). \<lparr>trendDate = k,
                                 trendRevenue = sum_list (map total g),
                                 trendSales = length g\<rparr>)
                   (groupBy (\<lambda>s. dateToString fmt tz (createdAt s)) matched))))
      | _ \<Rightarrow> Inl BadRequest)"

section \<open>Top products\<close>

text \<open>
  \<open>topLimit\<close> is the value of \<open>parseInt(limit)\<close> for a query that carries a limit, and
  \<open>None\<close> where the query has none (the default 10 applies); a limit that does not
  parse to a number is outside the model.  The \<open>$limit\<close> stage of the store refuses a
  limit that is not positive.
\<close>

record topQuery =
  topStartDate :: "date option"
  topEndDate :: "date option"
  topLimit :: "int option"

record topGroup =
  group_id :: objectId
  groupQuantity :: rat
  groupRevenue :: rat
  groupSaleCount :: nat

record topRow =
  productId :: objectId
  productName :: string
  topTotalQuantity :: rat
  topTotalRevenue :: rat
  saleCount :: nat

text \<open>\<open>matchFilter\<close>: the date range is part of it only when both dates are given.\<close>

definition matchFilter :: "env \<Rightarrow> topQuery \<Rightarrow> sale \<Rightarrow> bool" where
  "matchFilter e q s \<longleftrightarrow>
     isVoid s = False \<and>
     (case (topStartDate q, topEndDate q) of
        (Some start, Some endD) \<Rightarrow>
          start \<le> createdAt s \<and> createdAt s \<le> setHours_23_59_59_999 e endD
      | _ \<Rightarrow> True)"

text \<open>\<open>$match\<close>, \<open>$unwind: '$items'\<close> and \<open>$group\<close> by \<open>items.product\<close>.\<close>

definition topGroups :: "env \<Rightarrow> db \<Rightarrow> topQuery \<Rightarrow> topGroup list" where
  "topGroups e d q =
     map (\<lambda>(k, g). \<lparr>group_id = k,
                     groupQuantity = sum_list (map quantity g),
                     groupRevenue = sum_list (map subtotal g),
                     groupSaleCount = length g\<rparr>)
       (groupBy itemProduct (concat (map items (filter (matchFilter e q) (saleDocs d)))))"

text \<open>
  \<open>$lookup\<close> from products, \<open>$unwind: '$product'\<close> and \<open>$project\<close>: one row for each
  product document whose id is the group's; a group whose product is gone yields none.
\<close>

definition topRows :: "env \<Rightarrow> db \<Rightarrow> topQuery \<Rightarrow> topRow list" where
  "topRows e d q =
     concat (map (\<lambda>g.
        map (\<lambda>p. \<lparr>productId = group_id g, productName = name p,
                   topTotalQuantity = groupQuantity g,
                   topTotalRevenue = groupRevenue g,
                   saleCount = groupSaleCount g\<rparr>)
          (filter (\<lambda>p. product_id p = group_id g) (productDocs d))) (topGroups e d q))"

text \<open>
  \<open>$sort: { totalQuantity: -1 }\<close> names one sort key.  The store returns the documents in
  descending order of that key, and documents of equal key in any order: every
  rearrangement of the rows that descends by total quantity is a possible output.
\<close>

definition sortedByQuantityDesc :: "topRow list \<Rightarrow> topRow list \<Rightarrow> bool" where
  "sortedByQuantityDesc rows out \<longleftrightarrow>
     mset out = mset rows \<and>
     sorted_wrt (\<lambda>a b. topTotalQuantity b \<le> topTotalQuantity a) out"

datatype storeError = LimitMustBePositive

inductive getTopProducts :: "env \<Rightarrow> db \<Rightarrow> topQuery \<Rightarrow> storeError + topRow list \<Rightarrow> bool" where
  limitRefused:
    "(case topLimit q of None \<Rightarrow> 10 | Some n \<Rightarrow> n) \<le> 0
     \<Longrightarrow> getTopProducts e d q (Inl LimitMustBePositive)"
| topProducts:
    "0 < (case topLimit q of None \<Rightarrow> 10 | Some n \<Rightarrow> n)
     \<Longrightarrow> sortedByQuantityDesc (topRows e d q) out
     \<Longrightarrow> getTopProducts e d q
           (Inr (take (nat (case topLimit q of None \<Rightarrow> 10 | Some n \<Rightarrow> n)) out))"

section \<open>Creating and updating a product\<close>

text \<open>
  A numeric field of the body of a create request, as \<open>createProduct\<close> tests it: missing
  (or undefined), null, the empty string, or a number.  The other fields of the body
  stand for \<open>...req.body\<close> with the schema's defaults filled in.  The validation that
  \<open>Product.create\<close> and \<open>findByIdAndUpdate\<close> run against the schema is not modelled;
  \<open>now\<close> is \<open>new Date()\<close>, \<open>newId\<close> the id the store gives the new document, and
  \<open>suppliers\<close> the ids of the supplier collection.
\<close>

datatype field = Absent | Null | EmptyString | Num rat

record createBody =
  cb_supplier :: objectId
  cb_name :: string
  cb_category :: "string option"
  cb_price :: field
  cb_markupPercentage :: field
  cb_stockQuantity :: field
  cb_lowStockThreshold :: rat
  cb_isActive :: bool

text \<open>
  \<open>if (!('price' in req.body) || productData.price === undefined || productData.price === null
  || productData.price === '') productData.price = 0\<close>, and the same for the markup
  and the stock quantity.
\<close>

definition defaultZero :: "field \<Rightarrow> rat" where
  "defaultZero f = (case f of Absent \<Rightarrow> 0 | Null \<Rightarrow> 0 | EmptyString \<Rightarrow> 0 | Num r \<Rightarrow> r)"

definition createProduct ::
  "objectId list \<Rightarrow> date \<Rightarrow> objectId \<Rightarrow> createBody \<Rightarrow> db \<Rightarrow> httpError + db" where
  "createProduct suppliers now newId body d =
     (if cb_supplier body \<notin> set suppliers then Inl NotFound
      else
        (let price' = defaultZero (cb_price body);
             markupPercentage' = defaultZero (cb_markupPercentage body);
             stockQuantity' = defaultZero (cb_stockQuantity body);
             productData =
               \<lparr>product_id = newId, name = cb_name body, category = cb_category body,
                price = price', markupPercentage = markupPercentage',
                stockQuantity = stockQuantity',
                lowStockThreshold = cb_lowStockThreshold body, isActive = cb_isActive body,
                productCreatedAt = Some now,
                pricingHistory =
                  [\<lparr>basePrice = price', entryMarkupPercentage = markupPercentage',
                    updatedAt = now\<rparr>]\<rparr>
         in Inr (d\<lparr>productDocs := productDocs d @ [productData]\<rparr>)))"

text \<open>
  The body of an update request: the fields \<open>updateProduct\<close> reads, each \<open>None\<close> when
  the body does not carry it.  Price and markup are JSON numbers, on which
  \<open>parseFloat(x) || 0\<close> is \<open>x\<close>.  The controller hands the body as a whole to
  \<open>findByIdAndUpdate\<close>, so a \<open>pricingHistory\<close> the client put into the body is written
  too unless the controller replaced it.  Other fields of the body change nothing the
  claims concern and are left out; a body of update operators or dotted paths
  (\<open>$set\<close>, \<open>pricingHistory.0.basePrice\<close>) is outside the model.
\<close>

record updateBody =
  ub_supplier :: "objectId option"
  ub_price :: "rat option"
  ub_markupPercentage :: "rat option"
  ub_pricingHistory :: "pricingEntry list option"

text \<open>\<open>findByIdAndUpdate\<close> changes the first document with the id, by the fields of the body.\<close>

fun updateFirst :: "objectId \<Rightarrow> (product \<Rightarrow> product) \<Rightarrow> product list \<Rightarrow> product list" where
  "updateFirst i f [] = []"
| "updateFirst i f (p # ps) = (if product_id p = i then f p # ps else p # updateFirst i f ps)"

definition applyBody :: "updateBody \<Rightarrow> product \<Rightarrow> product" where
  "applyBody body p =
     p\<lparr>price := (case ub_price body of None \<Rightarrow> price p | Some x \<Rightarrow> x),
       markupPercentage :=
         (case ub_markupPercentage body of None \<Rightarrow> markupPercentage p | Some x \<Rightarrow> x),
       pricingHistory :=
         (case ub_pricingHistory body of None \<Rightarrow> pricingHistory p | Some h \<Rightarrow> h)\<rparr>"

definition updateProduct ::
  "objectId list \<Rightarrow> date \<Rightarrow> objectId \<Rightarrow> updateBody \<Rightarrow> db \<Rightarrow> httpError + db" where
  "updateProduct suppliers now i body d =
     (case find (\<lambda>p. product_id p = i) (productDocs d) of
        None \<Rightarrow> Inl NotFound
      | Some product \<Rightarrow>
          if (case ub_supplier body of None \<Rightarrow> False | Some s \<Rightarrow> s \<notin> set suppliers)
          then Inl NotFound
          else
            (let oldPrice = price product;
                 oldMarkupPercentage = markupPercentage product;
                 newPrice = (case ub_price body of None \<Rightarrow> oldPrice | Some x \<Rightarrow> x);
                 newMarkupPercentage =
                   (case ub_markupPercentage body of None \<Rightarrow> oldMarkupPercentage
                    | Some x \<Rightarrow> x);
                 priceChanged =
                   (newPrice \<noteq> oldPrice \<or> newMarkupPercentage \<noteq> oldMarkupPercentage);
                 body' =
                   (if priceChanged then
                      body\<lparr>ub_pricingHistory :=
                        Some ((if pricingHistory product = []
                               then [\<lparr>basePrice = oldPrice,
                                      entryMarkupPercentage = oldMarkupPercentage,
                                      updatedAt = (case productCreatedAt product of
                                                     None \<Rightarrow> now | Some c \<Rightarrow> c)\<rparr>]
                               else pricingHistory product)
                              @ [\<lparr>basePrice = newPrice,
                                  entryMarkupPercentage = newMarkupPercentage,
                                  updatedAt = now\<rparr>])\<rparr>
                    else body)
             in Inr (d\<lparr>productDocs := updateFirst i (applyBody body') (productDocs d)\<rparr>)))"

section \<open>Routes of the sales API\<close>

text \<open>
  A request as it reaches the router: \<open>requestUser\<close> is the user the session resolves
  to, \<open>None\<close> for a request without one.
\<close>

record user =
  user_id :: objectId
  role :: string

text \<open>
  Modelled from the spec: the middleware \<open>protect\<close> and \<open>authorize\<close>
  (middleware/auth.middleware.js) and \<open>handleValidationErrors\<close>
  (utils/validationHandler.js) are not among the source files.  By section 6 of the
  specification a write request carries an authenticated actor with a role, and the
  operation is authorized by role: \<open>authorize\<close> lets a request pass when the role of
  its user is one of the roles the route names; \<open>handleValidationErrors\<close> refuses a
  request on which a validator of the route failed.  The status codes of the refusals
  (401, 403, 400) are the customary ones; no statement below depends on them.
\<close>

definition authorize :: "string list \<Rightarrow> user \<Rightarrow> bool" where
  "authorize roles u \<longleftrightarrow> role u \<in> set roles"

text \<open>
  The validators of express-validator that the routes name.  \<open>trim\<close> removes white
  space (the class \<open>\s\<close> of JavaScript) at both ends and leaves the trimmed value in
  the body; a string of the model is a list of characters with codes below 256, among
  which the white space is the six ASCII characters and the no-break space. \<open>notEmpty\<close> fails on
  the empty string, which is also what a missing field is read as; \<open>optional\<close> skips
  the validators of a missing field.
\<close>

definition isSpace :: "char \<Rightarrow> bool" where
  "isSpace c \<longleftrightarrow>
     c \<in> set [CHR '' '', CHR 0x09, CHR 0x0A, CHR 0x0B, CHR 0x0C, CHR 0x0D, CHR 0xA0]"

definition trim :: "string \<Rightarrow> string" where
  "trim s = rev (dropWhile isSpace (rev (dropWhile isSpace s)))"

definition notEmpty :: "string \<Rightarrow> bool" where
  "notEmpty s \<longleftrightarrow> s \<noteq> []"

datatype 'a response = Rejected nat | Handled 'a

record voidRequest =
  voidUser :: "user option"
  superAdminCode :: "string option"
  voidReason :: "string option"

text \<open>
  \<open>router.patch('/:id/void', authorize('admin', 'staff'), [body('superAdminCode').trim()
  .notEmpty(), handleValidationErrors], salesController.voidSale)\<close>, behind
  \<open>router.use(protect)\<close>.  The controller \<open>voidSale\<close> is a parameter: a function of the
  state of the store, the id of the sale and the request.
\<close>

definition voidRoute ::
  "('s \<Rightarrow> objectId \<Rightarrow> voidRequest \<Rightarrow> 'r \<times> 's) \<Rightarrow> 's \<Rightarrow> objectId \<Rightarrow> voidRequest
     \<Rightarrow> 'r response \<times> 's" where
  "voidRoute voidSale st i req =
     (case voidUser req of
        None \<Rightarrow> (Rejected 401, st)
      | Some u \<Rightarrow>
          if \<not> authorize [''admin'', ''staff''] u then (Rejected 403, st)
          else
            (let code = trim (case superAdminCode req of None \<Rightarrow> [] | Some c \<Rightarrow> c) in
             if \<not> notEmpty code then (Rejected 400, st)
             else (let (r, st') = voidSale st i (req\<lparr>superAdminCode := Some code\<rparr>)
                   in (Handled r, st'))))"

record saleRequestItem =
  requestProduct :: objectId
  requestQuantity :: rat

record saleRequest =
  saleUser :: "user option"
  customerEmail :: "string option"
  customerPhone :: "string option"
  requestItems :: "saleRequestItem list"
  paymentMethod :: string
  discount :: "rat option"
  requestTax :: "rat option"

text \<open>
  The validators of \<open>router.post('/')\<close>.  \<open>isEmail\<close> of express-validator is a
  parameter; \<open>isMongoId\<close> holds of every id of the model.
\<close>

definition isDigit :: "char \<Rightarrow> bool" where
  "isDigit c \<longleftrightarrow> CHR ''0'' \<le> c \<and> c \<le> CHR ''9''"

definition validSaleRequest :: "(string \<Rightarrow> bool) \<Rightarrow> saleRequest \<Rightarrow> bool" where
  "validSaleRequest isEmail req \<longleftrightarrow>
     (case customerEmail req of None \<Rightarrow> True | Some m \<Rightarrow> isEmail m)
     \<and> (case customerPhone req of None \<Rightarrow> True
        | Some ph \<Rightarrow> length (trim ph) \<le> 11 \<and> trim ph \<noteq> [] \<and> list_all isDigit (trim ph))
     \<and> requestItems req \<noteq> []
     \<and> list_all (\<lambda>it. requestQuantity it \<in> \<int> \<and> 1 \<le> requestQuantity it) (requestItems req)
     \<and> paymentMethod req \<in> set [''cash'', ''card'', ''mobile_payment'', ''other'']
     \<and> (case discount req of None \<Rightarrow> True | Some x \<Rightarrow> 0 \<le> x)
     \<and> (case requestTax req of None \<Rightarrow> True | Some x \<Rightarrow> 0 \<le> x)"

definition createRoute ::
  "(string \<Rightarrow> bool) \<Rightarrow> ('s \<Rightarrow> saleRequest \<Rightarrow> 'r \<times> 's) \<Rightarrow> 's \<Rightarrow> saleRequest
     \<Rightarrow> 'r response \<times> 's" where
  "createRoute isEmail createSale st req =
     (case saleUser req of
        None \<Rightarrow> (Rejected 401, st)
      | Some u \<Rightarrow>
          if \<not> authorize [''supplier'', ''staff'', ''admin''] u then (Rejected 403, st)
          else if \<not> validSaleRequest isEmail req then (Rejected 400, st)
          else (let (r, st') =
                      createSale st (req\<lparr>customerPhone := map_option trim (customerPhone req)\<rparr>)
                in (Handled r, st')))"

section \<open>Sale creation\<close>

text \<open>
  Modelled from the spec: the controller \<open>createSale\<close> (controllers/sales.controller.js)
  and the models it writes are not among the source files.  The definitions follow
  sections 4.1 to 4.3 of the specification: the inventory ledger's
  \<open>reserveAndDecrement\<close> and \<open>increment\<close>, the selling price (base price plus markup
  per cent, as in the example of section 8), and the six steps of \<open>createSale\<close>, whose
  commit decrements line by line and, when a decrement fails, restores the stock of
  the lines already decremented.  \<open>now\<close> and \<open>newId\<close> are the creation time and the
  identity the store gives the sale.
\<close>

datatype saleError = ProductNotFound objectId | InsufficientStock objectId rat | InvalidAmount

definition resolveProduct :: "product list \<Rightarrow> objectId \<Rightarrow> product option" where
  "resolveProduct ps i =
     (case find (\<lambda>p. product_id p = i) ps of
        None \<Rightarrow> None
      | Some p \<Rightarrow> if isActive p then Some p else None)"

definition reserveAndDecrement ::
  "product list \<Rightarrow> objectId \<Rightarrow> rat \<Rightarrow> saleError + product list" where
  "reserveAndDecrement ps i q =
     (case resolveProduct ps i of
        None \<Rightarrow> Inl (ProductNotFound i)
      | Some p \<Rightarrow>
          if stockQuantity p < q then Inl (InsufficientStock i (q - stockQuantity p))
          else Inr (updateFirst i (\<lambda>p. p\<lparr>stockQuantity := stockQuantity p - q\<rparr>) ps))"

definition increment :: "product list \<Rightarrow> objectId \<Rightarrow> rat \<Rightarrow> product list" where
  "increment ps i q = updateFirst i (\<lambda>p. p\<lparr>stockQuantity := stockQuantity p + q\<rparr>) ps"

definition sellingPrice :: "product \<Rightarrow> rat" where
  "sellingPrice p = price p * (1 + markupPercentage p / 100)"

text \<open>Steps 1 and 2: resolve each line, check the stock, snapshot the price.\<close>

fun resolveLines :: "product list \<Rightarrow> saleRequestItem list \<Rightarrow> saleError + saleItem list" where
  "resolveLines ps [] = Inr []"
| "resolveLines ps (it # its) =
     (case resolveProduct ps (requestProduct it) of
        None \<Rightarrow> Inl (ProductNotFound (requestProduct it))
      | Some p \<Rightarrow>
          if stockQuantity p < requestQuantity it
          then Inl (InsufficientStock (requestProduct it) (requestQuantity it - stockQuantity p))
          else (case resolveLines ps its of
                  Inl e \<Rightarrow> Inl e
                | Inr ls \<Rightarrow>
                    Inr (\<lparr>itemProduct = requestProduct it, quantity = requestQuantity it,
                          subtotal = sellingPrice p * requestQuantity it\<rparr> # ls)))"

text \<open>
  Step 5: the decrements of the commit, in the order of the lines.  \<open>decremented\<close>
  holds the lines already decremented, the latest first; a failed decrement rolls them
  back.
\<close>

definition rollback :: "product list \<Rightarrow> saleRequestItem list \<Rightarrow> product list" where
  "rollback ps decremented =
     fold (\<lambda>it ps'. increment ps' (requestProduct it) (requestQuantity it)) decremented ps"

fun decrementAll ::
  "product list \<Rightarrow> saleRequestItem list \<Rightarrow> saleRequestItem list
     \<Rightarrow> (saleError \<times> product list) + product list" where
  "decrementAll ps decremented [] = Inr ps"
| "decrementAll ps decremented (it # its) =
     (case reserveAndDecrement ps (requestProduct it) (requestQuantity it) of
        Inl e \<Rightarrow> Inl (e, rollback ps decremented)
      | Inr ps' \<Rightarrow> decrementAll ps' (it # decremented) its)"

definition createSale ::
  "date \<Rightarrow> objectId \<Rightarrow> db \<Rightarrow> saleRequest \<Rightarrow> (saleError + sale) \<times> db" where
  "createSale now newId d req =
     (case resolveLines (productDocs d) (requestItems req) of
        Inl e \<Rightarrow> (Inl e, d)
      | Inr ls \<Rightarrow>
          (let tax' = (case requestTax req of None \<Rightarrow> 0 | Some x \<Rightarrow> x);
               total' = sum_list (map subtotal ls)
                        - (case discount req of None \<Rightarrow> 0 | Some x \<Rightarrow> x) + tax'
           in if total' < 0 then (Inl InvalidAmount, d)
              else
                (case decrementAll (productDocs d) [] (requestItems req) of
                   Inl (e, ps) \<Rightarrow> (Inl e, d\<lparr>productDocs := ps\<rparr>)
                 | Inr ps \<Rightarrow>
                     (let s = \<lparr>sale_id = newId, createdAt = now, isVoid = False, items = ls,
                               total = total', tax = tax'\<rparr>
                      in (Inr s, \<lparr>saleDocs = saleDocs d @ [s], productDocs = ps\<rparr>)))))"

section \<open>The range of a report as the specification words it\<close>

text \<open>
  The specification's range \<open>[startOfDay(start), endOfDay(end)]\<close>, for comparison with
  \<open>matchSale\<close>: the start moved back to the first millisecond of its local day.
\<close>

definition spec_startOfDay :: "env \<Rightarrow> date \<Rightarrow> date" where
  "spec_startOfDay e t = (let l = t + localOffset e in l - l mod msPerDay - localOffset e)"

definition spec_inRange :: "env \<Rightarrow> date \<Rightarrow> date \<Rightarrow> sale \<Rightarrow> bool" where
  "spec_inRange e start endD s \<longleftrightarrow>
     isVoid s = False \<and> spec_startOfDay e start \<le> createdAt s
     \<and> createdAt s \<le> setHours_23_59_59_999 e endD"

text \<open>
  The cost of goods sold as the specification words it: the sum over every line item of
  every non-void sale in the range of the product's current base price times the
  quantity.
\<close>

definition spec_totalCOGS :: "env \<Rightarrow> db \<Rightarrow> date \<Rightarrow> date \<Rightarrow> rat" where
  "spec_totalCOGS e d start endD =
     (\<Sum>s\<leftarrow>filter (matchSale start (setHours_23_59_59_999 e endD)) (saleDocs d).
        \<Sum>it\<leftarrow>items s. lineCost d it)"

section \<open>Example data\<close>

definition hammer :: product where
  "hammer = \<lparr>product_id = 1, name = ''Hammer'', category = Some ''Tools'', price = 100,
             markupPercentage = 20, stockQuantity = 10, lowStockThreshold = 5,
             isActive = True, productCreatedAt = Some 1700000000000, pricingHistory = []\<rparr>"

definition nails :: product where
  "nails = \<lparr>product_id = 2, name = ''Nails'', category = None, price = 2,
            markupPercentage = 50, stockQuantity = 0, lowStockThreshold = 10,
            isActive = True, productCreatedAt = Some 1700000000000, pricingHistory = []\<rparr>"

definition saw :: product where
  "saw = \<lparr>product_id = 3, name = ''Saw'', category = Some ''Tools'', price = 50,
          markupPercentage = 10, stockQuantity = 3, lowStockThreshold = 5,
          isActive = True, productCreatedAt = Some 1700000000000, pricingHistory = []\<rparr>"

definition retired :: product where
  "retired = \<lparr>product_id = 4, name = ''Retired'', category = Some ''Tools'', price = 1000,
              markupPercentage = 0, stockQuantity = 7, lowStockThreshold = 10,
              isActive = False, productCreatedAt = Some 1700000000000, pricingHistory = []\<rparr>"


text \<open>
  The server of the examples runs in Manila time (UTC+8).  \<open>manilaDateToString\<close> is the
  store's \<open>$dateToString\<close> on the instants the examples use, 15 and 16 January 2024 in
  that zone (week 02 of the year by \<open>%U\<close>).
\<close>

definition manilaEnv :: env where
  "manilaEnv = \<lparr>TZ = Some ''Asia/Manila'', localOffset = 28800000\<rparr>"

definition manilaDateToString :: "string \<Rightarrow> string \<Rightarrow> date \<Rightarrow> string" where
  "manilaDateToString fmt tz t =
     (if fmt = ''%Y-%m'' then ''2024-01''
      else if fmt = ''%Y-%U'' then ''2024-02''
      else if t < 1705334400000 then ''2024-01-15'' else ''2024-01-16'')"

text \<open>
  Five sales: at 04:00, 10:00, 11:00 (void) and 23:00 of 15 January 2024 and at 00:00 of
  16 January, Manila time.  The query asks for 15 January by the date alone, which
  \<open>new Date('2024-01-15')\<close> reads as midnight UTC, 08:00 in Manila.
\<close>

definition saleEarly :: sale where
  "saleEarly = \<lparr>sale_id = 101, createdAt = 1705262400000, isVoid = False,
      items = [\<lparr>itemProduct = 1, quantity = 3, subtotal = 360\<rparr>], total = 360, tax = 0\<rparr>"

definition saleMorning :: sale where
  "saleMorning = \<lparr>sale_id = 102, createdAt = 1705284000000, isVoid = False,
      items = [\<lparr>itemProduct = 1, quantity = 1, subtotal = 120\<rparr>,
               \<lparr>itemProduct = 3, quantity = 2, subtotal = 110\<rparr>], total = 250, tax = 20\<rparr>"

definition saleVoided :: sale where
  "saleVoided = \<lparr>sale_id = 103, createdAt = 1705287600000, isVoid = True,
      items = [\<lparr>itemProduct = 2, quantity = 5, subtotal = 15\<rparr>], total = 15, tax = 0\<rparr>"

definition saleEvening :: sale where
  "saleEvening = \<lparr>sale_id = 104, createdAt = 1705330800000, isVoid = False,
      items = [\<lparr>itemProduct = 1, quantity = 2, subtotal = 240\<rparr>], total = 240, tax = 0\<rparr>"

definition saleNextDay :: sale where
  "saleNextDay = \<lparr>sale_id = 105, createdAt = 1705334400000, isVoid = False,
      items = [\<lparr>itemProduct = 1, quantity = 1, subtotal = 120\<rparr>], total = 120, tax = 0\<rparr>"

definition salesDb :: db where
  "salesDb = \<lparr>saleDocs = [saleEarly, saleMorning, saleVoided, saleEvening, saleNextDay],
              productDocs = [hammer, nails, saw, retired]\<rparr>"

definition january15 :: dateRangeQuery where
  "january15 = \<lparr>startDate = Some 1705276800000, endDate = Some 1705276800000\<rparr>"

text \<open>
  A store with 101 sales of one hammer each, a millisecond apart from 10:00 of
  15 January 2024 on.
\<close>

definition bulkSale :: "nat \<Rightarrow> sale" where
  "bulkSale n = \<lparr>sale_id = 200 + n, createdAt = 1705284000000 + int n, isVoid = False,
      items = [\<lparr>itemProduct = 1, quantity = 1, subtotal = 120\<rparr>], total = 120, tax = 0\<rparr>"

definition bulkDb :: db where
  "bulkDb = \<lparr>saleDocs = map bulkSale [0..<101], productDocs = [hammer]\<rparr>"

text \<open>
  A server whose environment sets no \<open>TZ\<close>, and the store's \<open>$dateToString\<close> on the
  instants of 15 and 16 January 2024 in two zones: Manila time for the zone name
  \<open>Asia/Manila\<close>, UTC for any other.  The sale at 00:00 of 16 January in Manila is a
  sale of 15 January in UTC.
\<close>

definition unsetZoneEnv :: env where
  "unsetZoneEnv = \<lparr>TZ = None, localOffset = 28800000\<rparr>"

definition zonedDateToString :: "string \<Rightarrow> string \<Rightarrow> date \<Rightarrow> string" where
  "zonedDateToString fmt tz t =
     (let localTime = (if tz = ''Asia/Manila'' then t + 28800000 else t) in
      if fmt = ''%Y-%m'' then ''2024-01''
      else if fmt = ''%Y-%U'' then ''2024-02''
      else if localTime < 1705363200000 then ''2024-01-15'' else ''2024-01-16'')"

definition januaryTrend :: trendsQuery where
  "januaryTrend = \<lparr>trendStartDate = Some 1705276800000, trendEndDate = Some 1705363200000,
                    groupByParam = Some ''day''\<rparr>"

text \<open>Two sales of five units each, of two products, and the query with no parameter.\<close>

definition tieDb :: db where
  "tieDb = \<lparr>saleDocs =
       [\<lparr>sale_id = 301, createdAt = 1705284000000, isVoid = False,
         items = [\<lparr>itemProduct = 1, quantity = 5, subtotal = 600\<rparr>], total = 600, tax = 0\<rparr>,
        \<lparr>sale_id = 302, createdAt = 1705287600000, isVoid = False,
         items = [\<lparr>itemProduct = 3, quantity = 5, subtotal = 275\<rparr>], total = 275, tax = 0\<rparr>],
     productDocs = [hammer, saw]\<rparr>"

definition topOne :: topQuery where
  "topOne = \<lparr>topStartDate = None, topEndDate = None, topLimit = Some 1\<rparr>"

definition hammerTotals :: topRow where
  "hammerTotals = \<lparr>productId = 1, productName = ''Hammer'', topTotalQuantity = 7,
                   topTotalRevenue = 840, saleCount = 4\<rparr>"

definition sawTotals :: topRow where
  "sawTotals = \<lparr>productId = 3, productName = ''Saw'', topTotalQuantity = 2,
                topTotalRevenue = 110, saleCount = 1\<rparr>"

definition noParameters :: topQuery where
  "noParameters = \<lparr>topStartDate = None, topEndDate = None, topLimit = None\<rparr>"

definition hammerRow :: topRow where
  "hammerRow = \<lparr>productId = 1, productName = ''Hammer'', topTotalQuantity = 5,
                topTotalRevenue = 600, saleCount = 1\<rparr>"

definition sawRow :: topRow where
  "sawRow = \<lparr>productId = 3, productName = ''Saw'', topTotalQuantity = 5,
             topTotalRevenue = 275, saleCount = 1\<rparr>"

text \<open>A store whose only sale is void and whose only product is inactive.\<close>

definition idleDb :: db where
  "idleDb = \<lparr>saleDocs = [saleVoided], productDocs = [retired]\<rparr>"

text \<open>
  A catalogue with one product whose history holds its current price, the body of a
  request that creates a drill and the product it stores, and two update bodies that
  carry an empty \<open>pricingHistory\<close> of their own: one that repeats the current price
  and markup, and one with no other field.
\<close>

definition pricedHammer :: product where
  "pricedHammer = hammer\<lparr>pricingHistory :=
     [\<lparr>basePrice = 100, entryMarkupPercentage = 20, updatedAt = 1700000000000\<rparr>]\<rparr>"

definition catalogDb :: db where
  "catalogDb = \<lparr>saleDocs = [], productDocs = [pricedHammer]\<rparr>"

definition newDrillBody :: createBody where
  "newDrillBody = \<lparr>cb_supplier = 7, cb_name = ''Drill'', cb_category = Some ''Tools'',
     cb_price = Num 900, cb_markupPercentage = EmptyString, cb_stockQuantity = Absent,
     cb_lowStockThreshold = 10, cb_isActive = True\<rparr>"

definition newDrill :: product where
  "newDrill = \<lparr>product_id = 5, name = ''Drill'', category = Some ''Tools'', price = 900,
     markupPercentage = 0, stockQuantity = 0, lowStockThreshold = 10, isActive = True,
     productCreatedAt = Some 1705284000000,
     pricingHistory =
       [\<lparr>basePrice = 900, entryMarkupPercentage = 0, updatedAt = 1705284000000\<rparr>]\<rparr>"

definition historyOnlyBody :: updateBody where
  "historyOnlyBody = \<lparr>ub_supplier = None, ub_price = None, ub_markupPercentage = None,
     ub_pricingHistory = Some []\<rparr>"

definition historyResetBody :: updateBody where
  "historyResetBody = \<lparr>ub_supplier = None, ub_price = Some 100,
     ub_markupPercentage = Some 20, ub_pricingHistory = Some []\<rparr>"

text \<open>
  Requests to void sale 101: from an admin with a code, from a staff member with a blank
  code, and from a supplier with a code.  The controller of the example counts the
  reversals it ran.
\<close>

definition countingVoidSale :: "nat \<Rightarrow> objectId \<Rightarrow> voidRequest \<Rightarrow> objectId \<times> nat" where
  "countingVoidSale st i req = (i, Suc st)"

definition adminVoid :: voidRequest where
  "adminVoid = \<lparr>voidUser = Some \<lparr>user_id = 9, role = ''admin''\<rparr>,
                superAdminCode = Some ''override-7'', voidReason = Some ''wrong item''\<rparr>"

definition blankCodeVoid :: voidRequest where
  "blankCodeVoid = \<lparr>voidUser = Some \<lparr>user_id = 8, role = ''staff''\<rparr>,
                    superAdminCode = Some ''  '', voidReason = None\<rparr>"

definition supplierVoid :: voidRequest where
  "supplierVoid = \<lparr>voidUser = Some \<lparr>user_id = 6, role = ''supplier''\<rparr>,
                   superAdminCode = Some ''override-7'', voidReason = None\<rparr>"

text \<open>
  A request with two lines of six hammers each after a line of two saws: every line
  passes the check against the stock of ten hammers and three saws, and the second
  hammer line cannot be decremented once the first has been.
\<close>

definition doubleLineRequest :: saleRequest where
  "doubleLineRequest =
     \<lparr>saleUser = Some \<lparr>user_id = 8, role = ''staff''\<rparr>, customerEmail = None,
      customerPhone = None,
      requestItems = [\<lparr>requestProduct = 3, requestQuantity = 2\<rparr>,
                      \<lparr>requestProduct = 1, requestQuantity = 6\<rparr>,
                      \<lparr>requestProduct = 1, requestQuantity = 6\<rparr>],
      paymentMethod = ''cash'', discount = None, requestTax = None\<rparr>"

section \<open>Auxiliary facts about folds, sorting and grouping\<close>

lemma fold_add_sum_list:
  "fold (\<lambda>p s. s + f p) xs (a::rat) = a + sum_list (map f xs)"
  by (induction xs arbitrary: a) (simp_all add: add.assoc)



lemma keys_groupBy: "map fst (groupBy f xs) = remdups (map f xs)"
  by (simp add: groupBy_def comp_def)

lemma map_of_tabulate:
  "map_of (map (\<lambda>k. (k, F k)) ks) k = (if k \<in> set ks then Some (F k) else None)"
  by (induction ks) auto

lemma map_of_groupBy:
  "map_of (map (\<lambda>(k, g). (k, h k g)) (groupBy f xs)) k =
     (let g = filter (\<lambda>x. f x = k) xs in if g = [] then None else Some (h k g))"
proof -
  have "map (\<lambda>(k, g). (k, h k g)) (groupBy f xs) =
        map (\<lambda>k. (k, h k (filter (\<lambda>x. f x = k) xs))) (remdups (map f xs))"
    by (simp add: groupBy_def comp_def)
  moreover have "k \<in> set (remdups (map f xs)) \<longleftrightarrow> filter (\<lambda>x. f x = k) xs \<noteq> []"
    by (auto simp add: filter_empty_conv)
  ultimately show ?thesis
    by (simp add: map_of_tabulate Let_def)
qed

lemma distinct_keys_groupBy:
  "distinct (map fst (map (\<lambda>(k, g). (k, h k g)) (groupBy f xs)))"
proof -
  have "map fst (map (\<lambda>(k, g). (k, h k g)) (groupBy f xs)) = remdups (map f xs)"
    by (simp add: groupBy_def comp_def)
  then show ?thesis by simp
qed

lemma fold_upd_map_of:
  "fold (\<lambda>item m. m(fst item \<mapsto> snd item)) xs m k =
     (case map_of (rev xs) k of None \<Rightarrow> m k | Some v \<Rightarrow> Some v)"
proof (induction xs arbitrary: m)
  case Nil
  then show ?case by simp
next
  case (Cons x xs)
  have "fold (\<lambda>item m. m(fst item \<mapsto> snd item)) (x # xs) m k =
        fold (\<lambda>item m. m(fst item \<mapsto> snd item)) xs (m(fst x \<mapsto> snd x)) k"
    by simp
  also have "\<dots> = (case map_of (rev xs) k of None \<Rightarrow> (m(fst x \<mapsto> snd x)) k | Some v \<Rightarrow> Some v)"
    by (rule Cons.IH)
  also have "\<dots> = (case map_of (rev (x # xs)) k of None \<Rightarrow> m k | Some v \<Rightarrow> Some v)"
    by (cases x) (simp add: map_add_def split: option.splits)
  finally show ?case .
qed

lemma map_of_perm_distinct:
  assumes "distinct (map fst xs)" "mset ys = mset xs"
  shows "map_of ys = map_of xs"
proof -
  have "distinct (map fst ys)"
    using assms by (metis mset_map mset_eq_imp_distinct_iff)
  moreover have "set ys = set xs" using assms(2) by (metis set_mset_mset)
  ultimately show ?thesis using assms(1) by (metis map_of_inject_set)
qed

lemma fold_upd_sorted_groups:
  "fold (\<lambda>item m. m(fst item \<mapsto> snd item))
     (sort_key fst (map (\<lambda>(k, g). (k, h k g)) (groupBy f xs))) Map.empty k =
   (let g = filter (\<lambda>x. f x = k) xs in if g = [] then None else Some (h k g))"
proof -
  let ?gs = "map (\<lambda>(k, g). (k, h k g)) (groupBy f xs)"
  have "map_of (rev (sort_key fst ?gs)) = map_of ?gs"
    by (rule map_of_perm_distinct [OF distinct_keys_groupBy]) simp
  then show ?thesis
    by (simp add: fold_upd_map_of map_of_groupBy Let_def)
qed

lemma groupBy_member:
  "(k, g) \<in> set (groupBy f xs) \<longleftrightarrow> k \<in> f ` set xs \<and> g = filter (\<lambda>x. f x = k) xs"
  by (auto simp add: groupBy_def)

lemma distinct_map_sort_key:
  "distinct (map f (sort_key g xs)) = distinct (map f xs)"
  by (simp add: distinct_map)

section \<open>The inventory report\<close>

lemma addToCategory_apply:
  "addToCategory p m c =
     (if c = categoryOrDefault p \<and> \<not> inheritedProperty c
      then Some \<lparr>rollupCount = (case m c of None \<Rightarrow> 0 | Some r \<Rightarrow> rollupCount r) + 1,
                 totalValue = (case m c of None \<Rightarrow> 0 | Some r \<Rightarrow> totalValue r)
                              + price p * stockQuantity p\<rparr>
      else m c)"
  by (auto simp add: addToCategory_def Let_def split: option.splits)

lemma fold_addToCategory_inherited:
  "inheritedProperty c \<Longrightarrow> fold addToCategory xs m c = m c"
  by (induction xs arbitrary: m) (simp_all add: addToCategory_apply)













lemma inherited_category_has_no_bucket:
  "byCategory (getInventoryReport
      \<lparr>saleDocs = [], productDocs = [hammer\<lparr>category := Some ''constructor''\<rparr>]\<rparr>)
     ''constructor'' = None"
  by (simp add: getInventoryReport_def findActiveProducts_def hammer_def
      addToCategory_apply inheritedProperty_def)



section \<open>The sales report\<close>

lemma summary_of_matched:
  "(case summaryResult matched of
      [] \<Rightarrow> \<lparr>g_totalSales = 0, g_totalRevenue = 0, g_totalVAT = 0\<rparr>
    | g # _ \<Rightarrow> g) =
   \<lparr>g_totalSales = length matched,
    g_totalRevenue = sum_list (map total matched),
    g_totalVAT = sum_list (map tax matched)\<rparr>"
  by (simp add: summaryResult_def)

lemma setHours_props:
  "(setHours_23_59_59_999 e t + localOffset e) mod msPerDay = 86399999
   \<and> (setHours_23_59_59_999 e t + localOffset e) div msPerDay = (t + localOffset e) div msPerDay
   \<and> t \<le> setHours_23_59_59_999 e t"
proof -
  define l where "l = t + localOffset e"
  have m: "0 \<le> l mod 86400000" "l mod 86400000 < 86400000" by simp_all
  have eq: "setHours_23_59_59_999 e t + localOffset e = (l div 86400000) * 86400000 + 86399999"
    by (simp add: setHours_23_59_59_999_def Let_def msPerDay_def l_def minus_mod_eq_div_mult)
  have a: "(setHours_23_59_59_999 e t + localOffset e) mod msPerDay = 86399999"
    unfolding eq msPerDay_def by simp
  have b: "(setHours_23_59_59_999 e t + localOffset e) div msPerDay = l div msPerDay"
    unfolding eq msPerDay_def by simp
  have c: "t \<le> setHours_23_59_59_999 e t"
    using m by (simp add: setHours_23_59_59_999_def Let_def msPerDay_def l_def)
  show ?thesis using a b c by (simp add: l_def)
qed

lemma getSalesReport_Inr:
  assumes "startDate q = Some start" "endDate q = Some endD"
  shows "getSalesReport dts e d q =
    Inr \<lparr>summary =
           \<lparr>totalSales = length (filter (matchSale start (setHours_23_59_59_999 e endD)) (saleDocs d)),
            totalRevenue = sum_list (map total (filter (matchSale start (setHours_23_59_59_999 e endD)) (saleDocs d))),
            totalVAT = sum_list (map tax (filter (matchSale start (setHours_23_59_59_999 e endD)) (saleDocs d))),
            totalCOGS = calculateCOGS d (findSales start (setHours_23_59_59_999 e endD) d),
            profit = sum_list (map total (filter (matchSale start (setHours_23_59_59_999 e endD)) (saleDocs d)))
                     - calculateCOGS d (findSales start (setHours_23_59_59_999 e endD) d)\<rparr>,
          salesByDate = fold (\<lambda>item m. m(fst item \<mapsto> snd item))
                          (salesByDateResult dts e (filter (matchSale start (setHours_23_59_59_999 e endD)) (saleDocs d))) Map.empty,
          report_data = findSales start (setHours_23_59_59_999 e endD) d\<rparr>"
  using assms by (simp add: getSalesReport_def Let_def summary_of_matched)

lemma populatedProductId_saleDocs [simp]:
  "populatedProductId (d\<lparr>saleDocs := ss\<rparr>) = populatedProductId d"
  by (simp add: populatedProductId_def fun_eq_iff)

lemma calculateCOGS_saleDocs [simp]:
  "calculateCOGS (d\<lparr>saleDocs := ss\<rparr>) sales = calculateCOGS d sales"
  by (simp add: calculateCOGS_def collectProductIds_def cong: if_cong)

lemma filter_match_nonvoid:
  "filter (\<lambda>s. \<not> isVoid s \<and> matchSale a b s) ss = filter (matchSale a b) ss"
  by (rule filter_cong) (auto simp add: matchSale_def)

lemma sales_report_ignores_void:
  "getSalesReport dts e (d\<lparr>saleDocs := filter (\<lambda>s. \<not> isVoid s) (saleDocs d)\<rparr>) q =
   getSalesReport dts e d q"
  by (simp add: getSalesReport_def findSales_def filter_match_nonvoid Let_def
      split: option.splits)

lemma matchSale_filter_eq:
  "filter (matchSale start end') ss =
   filter (\<lambda>s. \<not> isVoid s \<and> start \<le> createdAt s \<and> createdAt s \<le> end') ss"
  by (rule filter_cong) (auto simp add: matchSale_def)

lemma example_setHours:
  "setHours_23_59_59_999 manilaEnv 1705276800000 = 1705334399999"
  by (simp add: setHours_23_59_59_999_def manilaEnv_def msPerDay_def Let_def)

lemma example_sales_fields:
  "createdAt saleEarly = 1705262400000" "isVoid saleEarly = False"
  "total saleEarly = 360" "tax saleEarly = 0"
  "createdAt saleMorning = 1705284000000" "isVoid saleMorning = False"
  "total saleMorning = 250" "tax saleMorning = 20"
  "createdAt saleVoided = 1705287600000" "isVoid saleVoided = True"
  "total saleVoided = 15" "tax saleVoided = 0"
  "createdAt saleEvening = 1705330800000" "isVoid saleEvening = False"
  "total saleEvening = 240" "tax saleEvening = 0"
  "createdAt saleNextDay = 1705334400000" "isVoid saleNextDay = False"
  "total saleNextDay = 120" "tax saleNextDay = 0"
  "saleDocs salesDb = [saleEarly, saleMorning, saleVoided, saleEvening, saleNextDay]"
  "productDocs salesDb = [hammer, nails, saw, retired]"
  "startDate january15 = Some 1705276800000" "endDate january15 = Some 1705276800000"
  by (simp_all add: saleEarly_def saleMorning_def saleVoided_def saleEvening_def
      saleNextDay_def salesDb_def january15_def)

lemma example_products:
  "product_id hammer = 1" "product_id nails = 2" "product_id saw = 3" "product_id retired = 4"
  "price hammer = 100" "price nails = 2" "price saw = 50" "price retired = 1000"
  by (simp_all add: hammer_def nails_def saw_def retired_def)



text \<open>
  Claim C3, as the code has it.  For a request with both dates the sales report
  succeeds, and the sales counted in \<open>totalSales\<close>, \<open>totalRevenue\<close>, \<open>totalVAT\<close> and in
  the bucket of each date key are exactly those with \<open>isVoid = false\<close> and \<open>createdAt\<close> in
  \<open>[start, endOfDay(end)]\<close> inclusive, where \<open>start\<close> is the instant \<open>startDate\<close> denotes
  (it is not moved to the start of its day) and the end is moved to 23:59:59.999 of its
  local day.  Void sales are excluded from every metric: the report of a store is the
  report of the store without its void sales.
\<close>

theorem sales_report_counts_matching_sales:
  assumes "startDate q = Some start" and "endDate q = Some endD"
  shows "\<exists>r. getSalesReport dts e d q = Inr r \<and>
     (let counted = filter (\<lambda>s. \<not> isVoid s \<and> start \<le> createdAt s
                                \<and> createdAt s \<le> setHours_23_59_59_999 e endD) (saleDocs d)
      in totalSales (summary r) = length counted
       \<and> totalRevenue (summary r) = sum_list (map total counted)
       \<and> totalVAT (summary r) = sum_list (map tax counted)
       \<and> salesByDate r k =
           (let g = filter (\<lambda>s. dts ''%Y-%m-%d'' (timezone e) (createdAt s) = k) counted
            in if g = [] then None
               else Some \<lparr>bucketCount = length g, revenue = sum_list (map total g)\<rparr>))
     \<and> (setHours_23_59_59_999 e endD + localOffset e) mod msPerDay = 86399999
     \<and> (setHours_23_59_59_999 e endD + localOffset e) div msPerDay
         = (endD + localOffset e) div msPerDay
     \<and> getSalesReport dts e (d\<lparr>saleDocs := filter (\<lambda>s. \<not> isVoid s) (saleDocs d)\<rparr>) q
         = getSalesReport dts e d q"
proof -
  let ?end = "setHours_23_59_59_999 e endD"
  let ?m = "filter (matchSale start ?end) (saleDocs d)"
  have bucket: "fold (\<lambda>item m. m(fst item \<mapsto> snd item)) (salesByDateResult dts e ?m) Map.empty k =
      (let g = filter (\<lambda>s. dts ''%Y-%m-%d'' (timezone e) (createdAt s) = k) ?m
       in if g = [] then None
          else Some \<lparr>bucketCount = length g, revenue = sum_list (map total g)\<rparr>)"
    unfolding salesByDateResult_def
    by (rule fold_upd_sorted_groups
        [of "\<lambda>k g. \<lparr>bucketCount = length g, revenue = sum_list (map total g)\<rparr>"])
  show ?thesis
    using getSalesReport_Inr [OF assms, of dts e d] bucket setHours_props [of e endD]
      sales_report_ignores_void [of dts e d q]
    by (simp add: Let_def matchSale_filter_eq)
qed


theorem sales_report_counts_matching_sales_witness:
  "\<exists>r. getSalesReport manilaDateToString manilaEnv salesDb january15 = Inr r
     \<and> totalSales (summary r) = 2
     \<and> totalRevenue (summary r) = 490
     \<and> totalVAT (summary r) = 20
     \<and> salesByDate r ''2024-01-15'' = Some \<lparr>bucketCount = 2, revenue = 490\<rparr>"
proof -
  note t = sales_report_counts_matching_sales
    [of january15 1705276800000 1705276800000 manilaDateToString manilaEnv salesDb
       "''2024-01-15''"]
  have "startDate january15 = Some 1705276800000" "endDate january15 = Some 1705276800000"
    by (simp_all add: example_sales_fields)
  from t [OF this] obtain r where
    1: "getSalesReport manilaDateToString manilaEnv salesDb january15 = Inr r" and
    2: "let counted = filter (\<lambda>s. \<not> isVoid s \<and> 1705276800000 \<le> createdAt s
                                \<and> createdAt s \<le> setHours_23_59_59_999 manilaEnv 1705276800000)
                        (saleDocs salesDb)
        in totalSales (summary r) = length counted
         \<and> totalRevenue (summary r) = sum_list (map total counted)
         \<and> totalVAT (summary r) = sum_list (map tax counted)
         \<and> salesByDate r ''2024-01-15'' =
             (let g = filter (\<lambda>s. manilaDateToString ''%Y-%m-%d'' (timezone manilaEnv) (createdAt s)
                                   = ''2024-01-15'') counted
              in if g = [] then None
                 else Some \<lparr>bucketCount = length g, revenue = sum_list (map total g)\<rparr>)"
    by blast
  from 2 have "totalSales (summary r) = 2
     \<and> totalRevenue (summary r) = 490
     \<and> totalVAT (summary r) = 20
     \<and> salesByDate r ''2024-01-15'' = Some \<lparr>bucketCount = 2, revenue = 490\<rparr>"
    by (simp add: example_setHours example_sales_fields manilaDateToString_def Let_def)
  with 1 show ?thesis by blast
qed

text \<open>
  The range of the specification, with the start moved to the start of its day, is not
  the code's: the sale of 04:00 lies in the day asked for and before the instant the
  start date denotes, so the specification's range holds three sales and the report
  counts two.
\<close>

theorem sales_report_start_of_day_counterexample:
  "totalSales (summary (projr (getSalesReport manilaDateToString manilaEnv salesDb january15))) = 2
   \<and> length (filter (spec_inRange manilaEnv 1705276800000 1705276800000) (saleDocs salesDb)) = 3"
proof -
  have s: "spec_startOfDay manilaEnv 1705276800000 = 1705248000000"
    by (simp add: spec_startOfDay_def manilaEnv_def msPerDay_def Let_def)
  have "getSalesReport manilaDateToString manilaEnv salesDb january15 =
        Inr \<lparr>summary =
           \<lparr>totalSales = length (filter (matchSale 1705276800000 (setHours_23_59_59_999 manilaEnv 1705276800000)) (saleDocs salesDb)),
            totalRevenue = sum_list (map total (filter (matchSale 1705276800000 (setHours_23_59_59_999 manilaEnv 1705276800000)) (saleDocs salesDb))),
            totalVAT = sum_list (map tax (filter (matchSale 1705276800000 (setHours_23_59_59_999 manilaEnv 1705276800000)) (saleDocs salesDb))),
            totalCOGS = calculateCOGS salesDb (findSales 1705276800000 (setHours_23_59_59_999 manilaEnv 1705276800000) salesDb),
            profit = sum_list (map total (filter (matchSale 1705276800000 (setHours_23_59_59_999 manilaEnv 1705276800000)) (saleDocs salesDb)))
                     - calculateCOGS salesDb (findSales 1705276800000 (setHours_23_59_59_999 manilaEnv 1705276800000) salesDb)\<rparr>,
          salesByDate = fold (\<lambda>item m. m(fst item \<mapsto> snd item))
                          (salesByDateResult manilaDateToString manilaEnv (filter (matchSale 1705276800000 (setHours_23_59_59_999 manilaEnv 1705276800000)) (saleDocs salesDb))) Map.empty,
          report_data = findSales 1705276800000 (setHours_23_59_59_999 manilaEnv 1705276800000) salesDb\<rparr>"
    by (rule getSalesReport_Inr) (simp_all add: example_sales_fields)
  then have "totalSales (summary (projr (getSalesReport manilaDateToString manilaEnv salesDb january15))) = 2"
    by (simp add: example_setHours example_sales_fields matchSale_def)
  moreover have "length (filter (spec_inRange manilaEnv 1705276800000 1705276800000) (saleDocs salesDb)) = 3"
    by (simp add: spec_inRange_def s example_setHours example_sales_fields)
  ultimately show ?thesis by simp
qed


subsection \<open>Cost of goods sold\<close>

lemma collect_items_set:
  "set (fold (\<lambda>it ids'. (case f it of None \<Rightarrow> ids'
                           | Some i \<Rightarrow> if i \<in> set ids' then ids' else ids' @ [i])) its ids)
   = set ids \<union> {i. \<exists>it\<in>set its. f it = Some i}"
  by (induction its arbitrary: ids) (auto split: option.splits)

lemma collect_sales_set:
  "set (fold (\<lambda>s ids.
        fold (\<lambda>it ids'. (case f it of None \<Rightarrow> ids'
                           | Some i \<Rightarrow> if i \<in> set ids' then ids' else ids' @ [i])) (items s) ids)
        sales ids0)
   = set ids0 \<union> {i. \<exists>s\<in>set sales. \<exists>it\<in>set (items s). f it = Some i}"
proof (induction sales arbitrary: ids0)
  case Nil
  then show ?case by simp
next
  case (Cons s sales)
  show ?case
    by (simp only: fold_simps Cons.IH collect_items_set) auto
qed

lemma set_collectProductIds:
  "set (collectProductIds d sales) =
     {i. \<exists>s\<in>set sales. \<exists>it\<in>set (items s). populatedProductId d it = Some i}"
  by (simp add: collectProductIds_def collect_sales_set)

lemma populatedProductId_Some:
  "populatedProductId d it = Some i \<longleftrightarrow>
     i = itemProduct it \<and> find (\<lambda>p. product_id p = itemProduct it) (productDocs d) \<noteq> None"
  by (auto simp add: populatedProductId_def find_Some_iff)

lemma map_of_find:
  "distinct (map product_id ps) \<Longrightarrow>
   map_of (map (\<lambda>p. (product_id p, p)) ps) i = find (\<lambda>p. product_id p = i) ps"
  by (induction ps) auto

lemma productMap_find:
  assumes "distinct (map product_id ps)"
  shows "productMap ps i = find (\<lambda>p. product_id p = i) ps"
proof -
  have "distinct (map fst (map (\<lambda>p. (product_id p, p)) ps))"
    using assms by (simp add: comp_def)
  then have "map_of (rev (map (\<lambda>p. (product_id p, p)) ps)) = map_of (map (\<lambda>p. (product_id p, p)) ps)"
    by (rule map_of_perm_distinct) simp
  then show ?thesis using assms by (simp add: productMap_def map_of_find)
qed

lemma find_filter_id:
  "i \<in> S \<Longrightarrow> find (\<lambda>p. product_id p = i) (filter (\<lambda>p. product_id p \<in> S) ps)
     = find (\<lambda>p. product_id p = i) ps"
  by (induction ps) auto

lemma fold_fold_sum:
  "fold (\<lambda>s acc. fold (\<lambda>it acc'. acc' + c it) (items s) acc) sales (a::rat)
   = a + (\<Sum>s\<leftarrow>sales. \<Sum>it\<leftarrow>items s. c it)"
  by (induction sales arbitrary: a) (simp_all add: fold_add_sum_list add.assoc)

lemma calculateCOGS_sum:
  assumes "distinct (map product_id (productDocs d))"
  shows "calculateCOGS d sales = (\<Sum>s\<leftarrow>sales. \<Sum>it\<leftarrow>items s. lineCost d it)"
proof -
  let ?ids = "collectProductIds d sales"
  let ?pm = "productMap (filter (\<lambda>p. product_id p \<in> set ?ids) (productDocs d))"
  let ?c = "\<lambda>it. (case populatedProductId d it of None \<Rightarrow> 0
                   | Some i \<Rightarrow> (case ?pm i of None \<Rightarrow> 0 | Some p \<Rightarrow> price p * quantity it))"
  have step: "(\<lambda>it acc'. (case populatedProductId d it of None \<Rightarrow> acc'
                    | Some i \<Rightarrow> (case ?pm i of None \<Rightarrow> acc' | Some p \<Rightarrow> acc' + price p * quantity it)))
              = (\<lambda>it acc'. acc' + ?c it)"
    by (auto simp add: fun_eq_iff split: option.splits)
  have pm: "?pm i = find (\<lambda>p. product_id p = i) (productDocs d)" if "i \<in> set ?ids" for i
    using that assms by (simp add: productMap_find distinct_map_filter find_filter_id)
  have c: "?c it = lineCost d it" if "s \<in> set sales" "it \<in> set (items s)" for s it
  proof (cases "populatedProductId d it")
    case None
    then show ?thesis by (simp add: lineCost_def populatedProductId_def)
  next
    case (Some i)
    then have "i \<in> set ?ids" using that by (auto simp add: set_collectProductIds)
    moreover have "i = itemProduct it" using Some by (simp add: populatedProductId_Some)
    ultimately show ?thesis using Some by (simp add: pm lineCost_def)
  qed
  have sums: "(\<Sum>s\<leftarrow>sales. \<Sum>it\<leftarrow>items s. ?c it) = (\<Sum>s\<leftarrow>sales. \<Sum>it\<leftarrow>items s. lineCost d it)"
    by (intro arg_cong [where f = sum_list] map_cong refl) (simp add: c)
  have none: "(\<Sum>s\<leftarrow>sales. \<Sum>it\<leftarrow>items s. lineCost d it) = 0" if "?ids = []"
  proof -
    have "lineCost d it = 0" if "s \<in> set sales" "it \<in> set (items s)" for s it
    proof -
      have "populatedProductId d it = None"
        using \<open>?ids = []\<close> that set_collectProductIds [of d sales]
        by (cases "populatedProductId d it") auto
      then show ?thesis by (simp add: lineCost_def populatedProductId_def)
    qed
    then have "(\<Sum>s\<leftarrow>sales. \<Sum>it\<leftarrow>items s. lineCost d it) = (\<Sum>s\<leftarrow>sales. \<Sum>it\<leftarrow>items s. 0)"
      by (intro arg_cong [where f = sum_list] map_cong refl) simp
    then show ?thesis by simp
  qed
  show ?thesis
  proof (cases "sales = []")
    case True
    then show ?thesis by (simp add: calculateCOGS_def)
  next
    case False
    show ?thesis
    proof (cases "?ids = []")
      case True
      then show ?thesis using False none by (simp add: calculateCOGS_def)
    next
      case ids: False
      have "calculateCOGS d sales =
            fold (\<lambda>s acc. fold (\<lambda>it acc'. acc' + ?c it) (items s) acc) sales 0"
        using False ids by (simp add: calculateCOGS_def Let_def step)
      then show ?thesis by (simp add: fold_fold_sum sums)
    qed
  qed
qed





lemma findSales_productDocs [simp]:
  "findSales a b (d\<lparr>productDocs := ps\<rparr>) = findSales a b d"
  by (simp add: findSales_def)



lemma sum_list_const_on:
  "(\<And>x. x \<in> set xs \<Longrightarrow> f x = (c::rat)) \<Longrightarrow> sum_list (map f xs) = of_nat (length xs) * c"
  by (induction xs) (simp_all add: algebra_simps)

lemma bulk_fields:
  "createdAt (bulkSale n) = 1705284000000 + int n" "isVoid (bulkSale n) = False"
  "items (bulkSale n) = [\<lparr>itemProduct = 1, quantity = 1, subtotal = 120\<rparr>]"
  "total (bulkSale n) = 120" "tax (bulkSale n) = 0"
  "saleDocs bulkDb = map bulkSale [0..<101]" "productDocs bulkDb = [hammer]"
  by (simp_all add: bulkSale_def bulkDb_def)

lemma bulk_all_match:
  "filter (matchSale 1705276800000 1705334399999) (saleDocs bulkDb) = saleDocs bulkDb"
  by (rule filter_True) (auto simp add: bulk_fields matchSale_def)

lemma bulk_sale_cost:
  assumes "s \<in> set (saleDocs bulkDb)"
  shows "(\<Sum>it\<leftarrow>items s. lineCost bulkDb it) = 100"
proof -
  from assms obtain n where "s = bulkSale n" by (auto simp add: bulk_fields)
  then show ?thesis
    by (simp add: bulk_fields lineCost_def example_products)
qed

text \<open>
  Claim C2, evaluated where it fails.  The store holds 101 non-void sales of one hammer
  (base price 100) in the range.  The report counts all of them in \<open>totalSales\<close> and
  \<open>totalRevenue\<close>, but \<open>totalCOGS\<close> is computed from the list that \<open>limit(100)\<close> cut to
  the 100 most recent sales: it is 10000, where the sum over every line item of every
  non-void sale in the range is 10100, and \<open>profit\<close> is 2120 instead of 2020.
\<close>

theorem cogs_of_report_covers_100_sales:
  "totalSales (summary (projr (getSalesReport manilaDateToString manilaEnv bulkDb january15))) = 101
   \<and> totalRevenue (summary (projr (getSalesReport manilaDateToString manilaEnv bulkDb january15))) = 12120
   \<and> totalCOGS (summary (projr (getSalesReport manilaDateToString manilaEnv bulkDb january15))) = 10000
   \<and> profit (summary (projr (getSalesReport manilaDateToString manilaEnv bulkDb january15))) = 2120
   \<and> spec_totalCOGS manilaEnv bulkDb 1705276800000 1705276800000 = 10100"
proof -
  have q: "startDate january15 = Some 1705276800000" "endDate january15 = Some 1705276800000"
    by (simp_all add: example_sales_fields)
  note R = getSalesReport_Inr [OF q, of manilaDateToString manilaEnv bulkDb]
  have dist: "distinct (map product_id (productDocs bulkDb))"
    by (simp add: bulk_fields)
  let ?sales = "findSales 1705276800000 1705334399999 bulkDb"
  have len: "length ?sales = 100"
    by (simp add: findSales_def bulk_all_match) (simp add: bulk_fields)
  have sub: "set ?sales \<subseteq> set (saleDocs bulkDb)"
    unfolding findSales_def bulk_all_match
    by (rule subset_trans [OF set_take_subset]) simp
  have cost: "(\<Sum>it\<leftarrow>items s. lineCost bulkDb it) = 100" if "s \<in> set ?sales" for s
    using that sub bulk_sale_cost by blast
  have cogs: "calculateCOGS bulkDb ?sales = 10000"
    unfolding calculateCOGS_sum [OF dist]
    using sum_list_const_on [of ?sales "\<lambda>s. \<Sum>it\<leftarrow>items s. lineCost bulkDb it" 100, OF cost]
    by (simp add: len)
  have n: "length (saleDocs bulkDb) = 101" by (simp add: bulk_fields)
  have tot: "total s = 120" if "s \<in> set (saleDocs bulkDb)" for s
    using that by (auto simp add: bulk_fields)
  have rev: "sum_list (map total (saleDocs bulkDb)) = 12120"
    using sum_list_const_on [of "saleDocs bulkDb" total 120, OF tot] n by simp
  have spec: "spec_totalCOGS manilaEnv bulkDb 1705276800000 1705276800000 = 10100"
    unfolding spec_totalCOGS_def example_setHours bulk_all_match
    using sum_list_const_on [of "saleDocs bulkDb" "\<lambda>s. \<Sum>it\<leftarrow>items s. lineCost bulkDb it" 100,
        OF bulk_sale_cost] n
    by simp
  show ?thesis
    unfolding R using cogs rev spec n
    by (simp add: example_setHours bulk_all_match)
qed


section \<open>Revenue trends\<close>

lemma getRevenueTrends_Inr:
  assumes "trendStartDate q = Some start" "trendEndDate q = Some endD"
  shows "getRevenueTrends dts e d q =
     Inr (sort_key trendDate
            (map (\<lambda>(k, g). \<lparr>trendDate = k, trendRevenue = sum_list (map total g),
                             trendSales = length g\<rparr>)
               (groupBy (\<lambda>s. dts (dateFormat (groupByParam q)) (timezone e) (createdAt s))
                  (filter (matchSale start (setHours_23_59_59_999 e endD)) (saleDocs d)))))"
  using assms by (simp add: getRevenueTrends_def Let_def)

lemma trend_keys:
  "map trendDate (map (\<lambda>(k, g). \<lparr>trendDate = k, trendRevenue = sum_list (map total g),
                             trendSales = length g\<rparr>) (groupBy f xs)) = remdups (map f xs)"
  by (simp add: groupBy_def comp_def)

text \<open>
  Claim C8.  For a revenue-trends query with both dates, the non-void sales with
  \<open>createdAt\<close> in the range are bucketed by the date string that the store's
  \<open>$dateToString\<close> gives for the format of the requested granularity
  (\<open>week\<close>: \<open>%Y-%U\<close>, \<open>month\<close>: \<open>%Y-%m\<close>, \<open>day\<close> and anything else: \<open>%Y-%m-%d\<close>) in
  the configured timezone, which is \<open>process.env.TZ\<close> when that is set and not empty
  and \<open>Asia/Manila\<close> otherwise; there is one row for each key that occurs, it holds
  the sum of the totals and the number of the sales of that key, and the rows are
  sorted ascending by key.
\<close>

theorem revenue_trends_buckets:
  assumes "trendStartDate q = Some start" and "trendEndDate q = Some endD"
  shows "\<exists>rows. getRevenueTrends dts e d q = Inr rows \<and>
     (let fmt = (case groupByParam q of
                   None \<Rightarrow> ''%Y-%m-%d''
                 | Some g \<Rightarrow> if g = ''week'' then ''%Y-%U''
                             else if g = ''month'' then ''%Y-%m'' else ''%Y-%m-%d'');
          tz = (case TZ e of None \<Rightarrow> ''Asia/Manila''
                | Some z \<Rightarrow> if z = [] then ''Asia/Manila'' else z);
          key = (\<lambda>s. dts fmt tz (createdAt s));
          counted = filter (\<lambda>s. \<not> isVoid s \<and> start \<le> createdAt s
                                \<and> createdAt s \<le> setHours_23_59_59_999 e endD) (saleDocs d)
      in sorted (map trendDate rows)
       \<and> distinct (map trendDate rows)
       \<and> set (map trendDate rows) = key ` set counted
       \<and> (\<forall>row\<in>set rows.
            trendRevenue row = sum_list (map total (filter (\<lambda>s. key s = trendDate row) counted))
          \<and> trendSales row = length (filter (\<lambda>s. key s = trendDate row) counted)))"
proof -
  have fmt: "(case groupByParam q of
                   None \<Rightarrow> ''%Y-%m-%d''
                 | Some g \<Rightarrow> if g = ''week'' then ''%Y-%U''
                             else if g = ''month'' then ''%Y-%m'' else ''%Y-%m-%d'')
             = dateFormat (groupByParam q)"
    by (simp add: dateFormat_def split: option.splits)
  have tz: "(case TZ e of None \<Rightarrow> ''Asia/Manila''
                | Some z \<Rightarrow> if z = [] then ''Asia/Manila'' else z) = timezone e"
    by (simp add: timezone_def)
  let ?key = "\<lambda>s. dts (dateFormat (groupByParam q)) (timezone e) (createdAt s)"
  let ?m = "filter (matchSale start (setHours_23_59_59_999 e endD)) (saleDocs d)"
  let ?mk = "\<lambda>(k, g). \<lparr>trendDate = k, trendRevenue = sum_list (map total g),
                             trendSales = length g\<rparr>"
  let ?rows = "sort_key trendDate (map ?mk (groupBy ?key ?m))"
  have 1: "sorted (map trendDate ?rows)" by (rule sorted_sort_key)
  have "distinct (map trendDate (map ?mk (groupBy ?key ?m)))"
    unfolding trend_keys by simp
  then have 2: "distinct (map trendDate ?rows)"
    by (simp only: distinct_map_sort_key)
  have "set (map trendDate (map ?mk (groupBy ?key ?m))) = ?key ` set ?m"
    unfolding trend_keys by simp
  then have 3: "set (map trendDate ?rows) = ?key ` set ?m"
    by (simp only: set_map set_sort)
  have 4: "trendRevenue row = sum_list (map total (filter (\<lambda>s. ?key s = trendDate row) ?m))
          \<and> trendSales row = length (filter (\<lambda>s. ?key s = trendDate row) ?m)"
    if "row \<in> set ?rows" for row
  proof -
    from that obtain k g where "(k, g) \<in> set (groupBy ?key ?m)" "row = ?mk (k, g)"
      by auto
    then show ?thesis by (simp add: groupBy_member)
  qed
  show ?thesis
    unfolding getRevenueTrends_Inr [OF assms] fmt tz
    using 1 2 3 4 by (simp add: Let_def matchSale_filter_eq)
qed

theorem revenue_trends_buckets_witness:
  "\<exists>rows. getRevenueTrends zonedDateToString unsetZoneEnv salesDb januaryTrend = Inr rows
     \<and> sorted (map trendDate rows)
     \<and> distinct (map trendDate rows)
     \<and> set (map trendDate rows) = {''2024-01-15'', ''2024-01-16''}"
proof -
  have q: "trendStartDate januaryTrend = Some 1705276800000"
      "trendEndDate januaryTrend = Some 1705363200000"
    by (simp_all add: januaryTrend_def)
  have e: "setHours_23_59_59_999 unsetZoneEnv 1705363200000 = 1705420799999"
    by (simp add: setHours_23_59_59_999_def unsetZoneEnv_def msPerDay_def Let_def)
  have g: "groupByParam januaryTrend = Some ''day''" "TZ unsetZoneEnv = None"
    by (simp_all add: januaryTrend_def unsetZoneEnv_def)
  from revenue_trends_buckets [OF q, of zonedDateToString unsetZoneEnv salesDb]
  obtain rows where
    1: "getRevenueTrends zonedDateToString unsetZoneEnv salesDb januaryTrend = Inr rows" and
    2: "sorted (map trendDate rows)" and
    3: "distinct (map trendDate rows)" and
    4: "set (map trendDate rows) =
          (\<lambda>s. zonedDateToString
                  (case groupByParam januaryTrend of
                     None \<Rightarrow> ''%Y-%m-%d''
                   | Some g \<Rightarrow> if g = ''week'' then ''%Y-%U''
                               else if g = ''month'' then ''%Y-%m'' else ''%Y-%m-%d'')
                  (case TZ unsetZoneEnv of None \<Rightarrow> ''Asia/Manila''
                   | Some z \<Rightarrow> if z = [] then ''Asia/Manila'' else z)
                  (createdAt s)) `
          set (filter (\<lambda>s. \<not> isVoid s \<and> 1705276800000 \<le> createdAt s
                                \<and> createdAt s \<le> setHours_23_59_59_999 unsetZoneEnv 1705363200000)
                 (saleDocs salesDb))"
    unfolding Let_def by blast
  from 4 have "set (map trendDate rows) = {''2024-01-15'', ''2024-01-16''}"
    unfolding e g
    by (simp add: example_sales_fields zonedDateToString_def Let_def insert_commute)
  with 1 2 3 show ?thesis by blast
qed

section \<open>Top products\<close>

lemma topRows_member:
  assumes "row \<in> set (topRows e d q)"
  shows "(let its = filter (\<lambda>it. itemProduct it = productId row)
                      (concat (map items (filter (matchFilter e q) (saleDocs d))))
          in its \<noteq> []
           \<and> topTotalQuantity row = sum_list (map quantity its)
           \<and> topTotalRevenue row = sum_list (map subtotal its)
           \<and> saleCount row = length its)
         \<and> productName row \<in> name ` {p \<in> set (productDocs d). product_id p = productId row}"
proof -
  let ?u = "concat (map items (filter (matchFilter e q) (saleDocs d)))"
  from assms obtain g p where g: "g \<in> set (topGroups e d q)"
    and p: "p \<in> set (productDocs d)" "product_id p = group_id g"
    and row: "row = \<lparr>productId = group_id g, productName = name p,
                   topTotalQuantity = groupQuantity g,
                   topTotalRevenue = groupRevenue g,
                   saleCount = groupSaleCount g\<rparr>"
    by (auto simp add: topRows_def)
  from g obtain k its where kg: "(k, its) \<in> set (groupBy itemProduct ?u)"
    and gd: "g = \<lparr>group_id = k, groupQuantity = sum_list (map quantity its),
                   groupRevenue = sum_list (map subtotal its), groupSaleCount = length its\<rparr>"
    by (auto simp add: topGroups_def)
  from kg have its: "its = filter (\<lambda>it. itemProduct it = k) ?u" and k: "k \<in> itemProduct ` set ?u"
    by (simp_all add: groupBy_member)
  from k have ne: "filter (\<lambda>it. itemProduct it = k) ?u \<noteq> []"
    by (auto simp add: filter_empty_conv)
  show ?thesis
    using p ne by (simp add: row gd its Let_def)
qed

lemma sortedByQuantityDesc_exists: "\<exists>out. sortedByQuantityDesc rows out"
proof -
  let ?out = "sort_key (\<lambda>r. - topTotalQuantity r) rows"
  have "sorted (map (\<lambda>r. - topTotalQuantity r) ?out)" by (rule sorted_sort_key)
  then have "sorted_wrt (\<lambda>a b. topTotalQuantity b \<le> topTotalQuantity a) ?out"
    by (simp add: sorted_map)
  then have "sortedByQuantityDesc rows ?out" by (simp add: sortedByQuantityDesc_def)
  then show ?thesis ..
qed

lemma length_filter_disjoint:
  assumes "\<And>x. \<not> (A x \<and> B x)"
  shows "length (filter (\<lambda>x. A x \<or> B x) xs) = length (filter A xs) + length (filter B xs)"
  using assms by (induction xs) auto

lemma sum_lengths_by_key:
  assumes "distinct ks"
  shows "sum_list (map (\<lambda>k. length (filter (\<lambda>p. f p = k) xs)) ks)
         = length (filter (\<lambda>p. f p \<in> set ks) xs)"
  using assms
proof (induction ks)
  case Nil
  then show ?case by simp
next
  case (Cons k ks)
  have "length (filter (\<lambda>p. f p = k \<or> f p \<in> set ks) xs)
        = length (filter (\<lambda>p. f p = k) xs) + length (filter (\<lambda>p. f p \<in> set ks) xs)"
    using Cons.prems by (intro length_filter_disjoint) auto
  then show ?case using Cons by simp
qed

lemma matchFilter_spelled:
  "filter (matchFilter e q) ss =
   filter (\<lambda>s. \<not> isVoid s \<and>
             (case (topStartDate q, topEndDate q) of
                (Some start, Some endD) \<Rightarrow>
                  start \<le> createdAt s \<and> createdAt s \<le> setHours_23_59_59_999 e endD
              | _ \<Rightarrow> True)) ss"
  by (rule filter_cong) (simp_all add: matchFilter_def)

lemma group_ids: "map group_id (topGroups e d q) =
    remdups (map itemProduct (concat (map items (filter (matchFilter e q) (saleDocs d)))))"
  by (simp add: topGroups_def groupBy_def comp_def)

lemma length_topRows:
  "length (topRows e d q) =
   length (filter (\<lambda>p. product_id p \<in>
              itemProduct ` set (concat (map items (filter (matchFilter e q) (saleDocs d)))))
            (productDocs d))"
proof -
  let ?ks = "remdups (map itemProduct (concat (map items (filter (matchFilter e q) (saleDocs d)))))"
  have "length (topRows e d q) =
        sum_list (map (\<lambda>g. length (filter (\<lambda>p. product_id p = group_id g) (productDocs d)))
                    (topGroups e d q))"
    by (simp add: topRows_def length_concat comp_def)
  also have "\<dots> = sum_list (map (\<lambda>k. length (filter (\<lambda>p. product_id p = k) (productDocs d)))
                         (map group_id (topGroups e d q)))"
    by (simp add: comp_def)
  also have "\<dots> = length (filter (\<lambda>p. product_id p \<in> set ?ks) (productDocs d))"
    unfolding group_ids by (rule sum_lengths_by_key) simp
  finally show ?thesis by simp
qed

lemma topRows_complete:
  assumes "p \<in> set (productDocs d)"
    and "product_id p \<in>
           itemProduct ` set (concat (map items (filter (matchFilter e q) (saleDocs d))))"
  shows "\<exists>row\<in>set (topRows e d q). productId row = product_id p \<and> productName row = name p"
proof -
  from assms(2) have "product_id p \<in> set (map group_id (topGroups e d q))"
    unfolding group_ids by simp
  then obtain g where g: "g \<in> set (topGroups e d q)" "group_id g = product_id p"
    by auto
  let ?row = "\<lparr>productId = group_id g, productName = name p,
               topTotalQuantity = groupQuantity g, topTotalRevenue = groupRevenue g,
               saleCount = groupSaleCount g\<rparr>"
  have "?row \<in> set (topRows e d q)"
    using g assms(1) by (auto simp add: topRows_def intro!: bexI [of _ g])
  then show ?thesis using g(2) by (intro bexI [of _ ?row]) simp_all
qed

text \<open>
  Claim C4, as the code has it.  For a top-products query whose limit is positive (10
  when the query names none) a result exists, and every result the store can return is
  the first \<open>limit\<close> rows of a ranking that descends by total quantity sold.  The
  ranking holds one row for each product document whose id occurs in a line item of a
  non-void sale within the optional date range (the range applies only when both dates
  are given); the row holds the product's id and name, the sums of quantity and revenue
  and the number of those line items.  A product that no longer resolves has no row.
  The order of rows of equal total quantity is not fixed.
\<close>

theorem top_products_ranking:
  assumes "0 < (case topLimit q of None \<Rightarrow> 10 | Some n \<Rightarrow> n)"
  shows "(\<exists>out. getTopProducts e d q (Inr out))
     \<and> (\<forall>res. getTopProducts e d q res \<longrightarrow>
          (\<exists>ranking.
             res = Inr (take (nat (case topLimit q of None \<Rightarrow> 10 | Some n \<Rightarrow> n)) ranking)
             \<and> sorted_wrt (\<lambda>a b. topTotalQuantity b \<le> topTotalQuantity a) ranking
             \<and> mset ranking = mset (topRows e d q)
             \<and> (let sold = concat (map items
                              (filter (\<lambda>s. \<not> isVoid s \<and>
                                 (case (topStartDate q, topEndDate q) of
                                    (Some start, Some endD) \<Rightarrow>
                                      start \<le> createdAt s
                                      \<and> createdAt s \<le> setHours_23_59_59_999 e endD
                                  | _ \<Rightarrow> True)) (saleDocs d)))
                in (\<forall>row\<in>set ranking.
                      (let its = filter (\<lambda>it. itemProduct it = productId row) sold
                       in its \<noteq> []
                        \<and> topTotalQuantity row = sum_list (map quantity its)
                        \<and> topTotalRevenue row = sum_list (map subtotal its)
                        \<and> saleCount row = length its)
                      \<and> productName row \<in>
                          name ` {p \<in> set (productDocs d). product_id p = productId row})
                 \<and> (\<forall>p\<in>set (productDocs d). product_id p \<in> itemProduct ` set sold \<longrightarrow>
                      (\<exists>row\<in>set ranking.
                         productId row = product_id p \<and> productName row = name p))
                 \<and> length ranking =
                     length (filter (\<lambda>p. product_id p \<in> itemProduct ` set sold)
                               (productDocs d)))))"
proof (intro conjI allI impI)
  obtain out where "sortedByQuantityDesc (topRows e d q) out"
    using sortedByQuantityDesc_exists by blast
  then show "\<exists>out. getTopProducts e d q (Inr out)"
    using assms getTopProducts.topProducts by blast
next
  fix res
  let ?sold = "concat (map items
                              (filter (\<lambda>s. \<not> isVoid s \<and>
                                 (case (topStartDate q, topEndDate q) of
                                    (Some start, Some endD) \<Rightarrow>
                                      start \<le> createdAt s
                                      \<and> createdAt s \<le> setHours_23_59_59_999 e endD
                                  | _ \<Rightarrow> True)) (saleDocs d)))"
  have sold: "?sold = concat (map items (filter (matchFilter e q) (saleDocs d)))"
    by (simp only: matchFilter_spelled)
  assume "getTopProducts e d q res"
  then show "\<exists>ranking.
             res = Inr (take (nat (case topLimit q of None \<Rightarrow> 10 | Some n \<Rightarrow> n)) ranking)
             \<and> sorted_wrt (\<lambda>a b. topTotalQuantity b \<le> topTotalQuantity a) ranking
             \<and> mset ranking = mset (topRows e d q)
             \<and> (let sold = ?sold
                in (\<forall>row\<in>set ranking.
                      (let its = filter (\<lambda>it. itemProduct it = productId row) sold
                       in its \<noteq> []
                        \<and> topTotalQuantity row = sum_list (map quantity its)
                        \<and> topTotalRevenue row = sum_list (map subtotal its)
                        \<and> saleCount row = length its)
                      \<and> productName row \<in>
                          name ` {p \<in> set (productDocs d). product_id p = productId row})
                 \<and> (\<forall>p\<in>set (productDocs d). product_id p \<in> itemProduct ` set sold \<longrightarrow>
                      (\<exists>row\<in>set ranking.
                         productId row = product_id p \<and> productName row = name p))
                 \<and> length ranking =
                     length (filter (\<lambda>p. product_id p \<in> itemProduct ` set sold)
                               (productDocs d)))"
  proof cases
    case limitRefused
    then show ?thesis using assms by simp
  next
    case (topProducts ranking)
    from topProducts have ms: "mset ranking = mset (topRows e d q)"
      and so: "sorted_wrt (\<lambda>a b. topTotalQuantity b \<le> topTotalQuantity a) ranking"
      by (simp_all add: sortedByQuantityDesc_def)
    have st: "set ranking = set (topRows e d q)" using ms by (rule mset_eq_setD)
    have ln: "length ranking = length (topRows e d q)" using ms by (rule mset_eq_length)
    have a: "(let its = filter (\<lambda>it. itemProduct it = productId row) ?sold
                       in its \<noteq> []
                        \<and> topTotalQuantity row = sum_list (map quantity its)
                        \<and> topTotalRevenue row = sum_list (map subtotal its)
                        \<and> saleCount row = length its)
                      \<and> productName row \<in>
                          name ` {p \<in> set (productDocs d). product_id p = productId row}"
      if "row \<in> set ranking" for row
      using topRows_member [of row e d q] that unfolding st sold by simp
    have b: "\<exists>row\<in>set ranking. productId row = product_id p \<and> productName row = name p"
      if "p \<in> set (productDocs d)" "product_id p \<in> itemProduct ` set ?sold" for p
      using topRows_complete [of p d e q] that unfolding st sold by simp
    have c: "length ranking =
               length (filter (\<lambda>p. product_id p \<in> itemProduct ` set ?sold) (productDocs d))"
      unfolding ln sold by (rule length_topRows)
    show ?thesis
      apply (rule exI [of _ ranking])
      apply (intro conjI)
         apply (rule topProducts(1))
        apply (rule so)
       apply (rule ms)
      apply (unfold Let_def)
      apply (intro conjI ballI impI)
            apply (use a in \<open>simp_all add: Let_def\<close>)[5]
       apply (use b in blast)
      apply (rule c)
      done
  qed
qed

lemma mset_pair:
  assumes "mset xs = mset [a, b]"
  shows "xs = [a, b] \<or> xs = [b, a]"
proof -
  have "length xs = 2" using assms by (metis mset_eq_length length_Cons list.size(3) numeral_2_eq_2)
  then obtain x y where xs: "xs = [x, y]"
    by (metis (no_types, opaque_lifting) Suc_length_conv length_0_conv numeral_2_eq_2)
  from assms show ?thesis unfolding xs
    by (auto simp add: add_eq_conv_ex)
qed

lemma sales_top_rows: "topRows manilaEnv salesDb topOne = [sawTotals, hammerTotals]"
  by (simp add: topRows_def topGroups_def groupBy_def matchFilter_def salesDb_def
      topOne_def hammerTotals_def sawTotals_def hammer_def saw_def nails_def retired_def
      saleEarly_def saleMorning_def saleVoided_def saleEvening_def saleNextDay_def)

theorem top_products_ranking_witness:
  "getTopProducts manilaEnv salesDb topOne (Inr [hammerTotals])"
proof -
  have h: "0 < (case topLimit topOne of None \<Rightarrow> (10::int) | Some n \<Rightarrow> n)"
    by (simp add: topOne_def)
  note t = top_products_ranking [OF h, of manilaEnv salesDb]
  from t obtain out where out: "getTopProducts manilaEnv salesDb topOne (Inr out)"
    by blast
  with t obtain ranking where
    r: "Inr out = (Inr (take (nat (case topLimit topOne of None \<Rightarrow> 10 | Some n \<Rightarrow> n)) ranking)
              :: storeError + topRow list)"
    and s: "sorted_wrt (\<lambda>a b. topTotalQuantity b \<le> topTotalQuantity a) ranking"
    and m: "mset ranking = mset (topRows manilaEnv salesDb topOne)"
    by blast
  from m have "ranking = [sawTotals, hammerTotals] \<or> ranking = [hammerTotals, sawTotals]"
    unfolding sales_top_rows by (rule mset_pair)
  with s have "ranking = [hammerTotals, sawTotals]"
    by (auto simp add: hammerTotals_def sawTotals_def)
  with r have "out = [hammerTotals]" by (simp add: topOne_def)
  with out show ?thesis by simp
qed

lemma tie_rows: "topRows manilaEnv tieDb noParameters = [hammerRow, sawRow]"
  by (simp add: topRows_def topGroups_def groupBy_def matchFilter_def tieDb_def
      noParameters_def hammerRow_def sawRow_def hammer_def saw_def)

text \<open>
  No rule breaks a tie: for two products that sold five units each, the ranking with
  either one first descends by total quantity, so both are results of the same query
  on the same store.
\<close>

theorem top_products_tie_counterexample:
  "getTopProducts manilaEnv tieDb noParameters (Inr [hammerRow, sawRow])
   \<and> getTopProducts manilaEnv tieDb noParameters (Inr [sawRow, hammerRow])
   \<and> [hammerRow, sawRow] \<noteq> [sawRow, hammerRow]"
proof -
  have h: "0 < (case topLimit noParameters of None \<Rightarrow> (10::int) | Some n \<Rightarrow> n)"
    by (simp add: noParameters_def)
  have q: "topTotalQuantity hammerRow = 5" "topTotalQuantity sawRow = 5"
    by (simp_all add: hammerRow_def sawRow_def)
  have a: "sortedByQuantityDesc (topRows manilaEnv tieDb noParameters) [hammerRow, sawRow]"
    by (simp add: sortedByQuantityDesc_def tie_rows q)
  have b: "sortedByQuantityDesc (topRows manilaEnv tieDb noParameters) [sawRow, hammerRow]"
    by (simp add: sortedByQuantityDesc_def tie_rows q)
  have ne: "hammerRow \<noteq> sawRow" by (simp add: hammerRow_def sawRow_def)
  from getTopProducts.topProducts [OF h a] getTopProducts.topProducts [OF h b] ne
  show ?thesis by (simp add: noParameters_def)
qed

section \<open>Reports over an empty result set\<close>

lemma sales_report_empty:
  assumes "startDate q = Some start" "endDate q = Some endD"
    and "\<forall>s\<in>set (saleDocs d). isVoid s \<or> createdAt s < start
            \<or> setHours_23_59_59_999 e endD < createdAt s"
  shows "getSalesReport dts e d q =
     Inr \<lparr>summary = \<lparr>totalSales = 0, totalRevenue = 0, totalVAT = 0, totalCOGS = 0, profit = 0\<rparr>,
          salesByDate = Map.empty, report_data = []\<rparr>"
proof -
  have m: "filter (matchSale start (setHours_23_59_59_999 e endD)) (saleDocs d) = []"
    using assms(3) by (auto simp add: filter_empty_conv matchSale_def)
  show ?thesis
    unfolding getSalesReport_Inr [OF assms(1,2)]
    by (simp add: m findSales_def calculateCOGS_def salesByDateResult_def groupBy_def)
qed

lemma revenue_trends_empty:
  assumes "trendStartDate q = Some start" "trendEndDate q = Some endD"
    and "\<forall>s\<in>set (saleDocs d). isVoid s \<or> createdAt s < start
            \<or> setHours_23_59_59_999 e endD < createdAt s"
  shows "getRevenueTrends dts e d q = Inr []"
proof -
  have m: "filter (matchSale start (setHours_23_59_59_999 e endD)) (saleDocs d) = []"
    using assms(3) by (auto simp add: filter_empty_conv matchSale_def)
  show ?thesis
    unfolding getRevenueTrends_Inr [OF assms(1,2)]
    by (simp add: m groupBy_def)
qed

lemma top_products_empty:
  assumes "0 < (case topLimit q of None \<Rightarrow> 10 | Some n \<Rightarrow> n)"
    and "\<forall>s\<in>set (saleDocs d). \<not> matchFilter e q s"
  shows "getTopProducts e d q (Inr []) \<and> (\<forall>res. getTopProducts e d q res \<longrightarrow> res = Inr [])"
proof -
  have m: "filter (matchFilter e q) (saleDocs d) = []"
    using assms(2) by (simp add: filter_empty_conv)
  have rows: "topRows e d q = []"
    by (simp add: topRows_def topGroups_def m groupBy_def)
  have "sortedByQuantityDesc (topRows e d q) []"
    by (simp add: rows sortedByQuantityDesc_def)
  from getTopProducts.topProducts [OF assms(1) this]
  have a: "getTopProducts e d q (Inr [])" by simp
  have b: "res = Inr []" if "getTopProducts e d q res" for res
    using that
  proof cases
    case limitRefused
    then show ?thesis using assms(1) by simp
  next
    case (topProducts out)
    then have "out = []" by (simp add: rows sortedByQuantityDesc_def)
    then show ?thesis using topProducts by simp
  qed
  from a b show ?thesis by blast
qed

lemma inventory_report_empty:
  assumes "\<forall>p\<in>set (productDocs d). \<not> isActive p"
  shows "getInventoryReport d =
     \<lparr>inv_summary = \<lparr>totalProducts = 0, totalStockValue = 0, lowStockCount = 0,
                      outOfStockCount = 0\<rparr>,
      byCategory = Map.empty, lowStockProducts = [], outOfStockProducts = [], inv_data = []\<rparr>"
proof -
  have "filter isActive (productDocs d) = []"
    using assms by (simp add: filter_empty_conv)
  then show ?thesis
    by (simp add: getInventoryReport_def findActiveProducts_def)
qed

text \<open>
  Claim C9.  A reporting aggregation over an empty result set returns zero values, not
  an error: a sales report whose range holds no non-void sale (zero count, revenue,
  VAT, cost of goods sold and profit, an empty bucket map and no data), revenue trends
  over such a range (no rows), top products when no non-void sale passes the filter
  and the limit is positive (the empty list and nothing else), and the inventory report
  when no product is active (zero counts and value, an empty rollup).
\<close>

theorem empty_result_sets_give_zero_reports:
  "(startDate q = Some start \<and> endDate q = Some endD
      \<and> (\<forall>s\<in>set (saleDocs d). isVoid s \<or> createdAt s < start
              \<or> setHours_23_59_59_999 e endD < createdAt s)
    \<longrightarrow> getSalesReport dts e d q =
          Inr \<lparr>summary = \<lparr>totalSales = 0, totalRevenue = 0, totalVAT = 0, totalCOGS = 0,
                           profit = 0\<rparr>,
               salesByDate = Map.empty, report_data = []\<rparr>)
   \<and> (trendStartDate tq = Some tstart \<and> trendEndDate tq = Some tend
      \<and> (\<forall>s\<in>set (saleDocs d). isVoid s \<or> createdAt s < tstart
              \<or> setHours_23_59_59_999 e tend < createdAt s)
    \<longrightarrow> getRevenueTrends dts e d tq = Inr [])
   \<and> (0 < (case topLimit pq of None \<Rightarrow> 10 | Some n \<Rightarrow> n)
      \<and> (\<forall>s\<in>set (saleDocs d). \<not> matchFilter e pq s)
    \<longrightarrow> getTopProducts e d pq (Inr [])
        \<and> (\<forall>res. getTopProducts e d pq res \<longrightarrow> res = Inr []))
   \<and> ((\<forall>p\<in>set (productDocs d). \<not> isActive p)
    \<longrightarrow> getInventoryReport d =
          \<lparr>inv_summary = \<lparr>totalProducts = 0, totalStockValue = 0, lowStockCount = 0,
                           outOfStockCount = 0\<rparr>,
           byCategory = Map.empty, lowStockProducts = [], outOfStockProducts = [],
           inv_data = []\<rparr>)"
  using sales_report_empty [of q start endD d e dts]
    revenue_trends_empty [of tq tstart tend d e dts]
    top_products_empty [of pq d e]
    inventory_report_empty [of d]
  by (intro conjI impI) blast+

theorem empty_result_sets_give_zero_reports_witness:
  "getSalesReport manilaDateToString manilaEnv idleDb january15 =
          Inr \<lparr>summary = \<lparr>totalSales = 0, totalRevenue = 0, totalVAT = 0, totalCOGS = 0,
                           profit = 0\<rparr>,
               salesByDate = Map.empty, report_data = []\<rparr>
   \<and> getRevenueTrends manilaDateToString manilaEnv idleDb januaryTrend = Inr []
   \<and> getTopProducts manilaEnv idleDb noParameters (Inr [])
   \<and> getInventoryReport idleDb =
          \<lparr>inv_summary = \<lparr>totalProducts = 0, totalStockValue = 0, lowStockCount = 0,
                           outOfStockCount = 0\<rparr>,
           byCategory = Map.empty, lowStockProducts = [], outOfStockProducts = [],
           inv_data = []\<rparr>"
proof -
  note t = empty_result_sets_give_zero_reports
    [of january15 1705276800000 1705276800000 idleDb manilaEnv manilaDateToString
        januaryTrend 1705276800000 1705363200000 noParameters]
  have h1: "startDate january15 = Some 1705276800000 \<and> endDate january15 = Some 1705276800000
      \<and> (\<forall>s\<in>set (saleDocs idleDb). isVoid s \<or> createdAt s < 1705276800000
              \<or> setHours_23_59_59_999 manilaEnv 1705276800000 < createdAt s)"
    by (simp add: january15_def idleDb_def saleVoided_def)
  have h2: "trendStartDate januaryTrend = Some 1705276800000
      \<and> trendEndDate januaryTrend = Some 1705363200000
      \<and> (\<forall>s\<in>set (saleDocs idleDb). isVoid s \<or> createdAt s < 1705276800000
              \<or> setHours_23_59_59_999 manilaEnv 1705363200000 < createdAt s)"
    by (simp add: januaryTrend_def idleDb_def saleVoided_def)
  have h3: "0 < (case topLimit noParameters of None \<Rightarrow> (10::int) | Some n \<Rightarrow> n)
      \<and> (\<forall>s\<in>set (saleDocs idleDb). \<not> matchFilter manilaEnv noParameters s)"
    by (simp add: noParameters_def idleDb_def saleVoided_def matchFilter_def)
  have h4: "\<forall>p\<in>set (productDocs idleDb). \<not> isActive p"
    by (simp add: idleDb_def retired_def)
  from t h1 h2 h3 h4 show ?thesis by blast
qed

section \<open>The pricing history of a product\<close>

lemma catalog_facts:
  "productDocs catalogDb = [pricedHammer]" "product_id pricedHammer = 1"
  "price pricedHammer = 100" "markupPercentage pricedHammer = 20"
  "pricingHistory pricedHammer =
     [\<lparr>basePrice = 100, entryMarkupPercentage = 20, updatedAt = 1700000000000\<rparr>]"
  by (simp_all add: catalogDb_def pricedHammer_def hammer_def)

text \<open>
  Claim C5, evaluated where it fails.  \<open>createProduct\<close> stores the drill with a history
  of one entry that holds its price and markup.  An update whose body carries an empty
  \<open>pricingHistory\<close> and no price leaves the drill with its price of 900 and an empty
  history; and an update of the hammer that repeats its current price and markup and
  carries an empty \<open>pricingHistory\<close> changes the history, which was not empty, to the
  empty one.  In both the price did not change, and the history did.
\<close>

theorem update_overwrites_pricing_history:
  "createProduct [7] 1705284000000 5 newDrillBody catalogDb =
       Inr (catalogDb\<lparr>productDocs := [pricedHammer, newDrill]\<rparr>)
   \<and> pricingHistory newDrill =
       [\<lparr>basePrice = 900, entryMarkupPercentage = 0, updatedAt = 1705284000000\<rparr>]
   \<and> updateProduct [7] 1705287600000 5 historyOnlyBody
         (catalogDb\<lparr>productDocs := [pricedHammer, newDrill]\<rparr>) =
       Inr (catalogDb\<lparr>productDocs := [pricedHammer, newDrill\<lparr>pricingHistory := []\<rparr>]\<rparr>)
   \<and> price (newDrill\<lparr>pricingHistory := []\<rparr>) = 900
   \<and> ub_price historyResetBody = Some (price pricedHammer)
   \<and> ub_markupPercentage historyResetBody = Some (markupPercentage pricedHammer)
   \<and> pricingHistory pricedHammer =
       [\<lparr>basePrice = 100, entryMarkupPercentage = 20, updatedAt = 1700000000000\<rparr>]
   \<and> updateProduct [7] 1705287600000 1 historyResetBody catalogDb =
       Inr (catalogDb\<lparr>productDocs := [pricedHammer\<lparr>pricingHistory := []\<rparr>]\<rparr>)"
proof -
  have ids: "product_id newDrill = 5" "price newDrill = 900" "markupPercentage newDrill = 0"
    by (simp_all add: newDrill_def)
  have 1: "createProduct [7] 1705284000000 5 newDrillBody catalogDb =
       Inr (catalogDb\<lparr>productDocs := [pricedHammer, newDrill]\<rparr>)"
    by (simp add: createProduct_def newDrillBody_def newDrill_def defaultZero_def Let_def
        catalog_facts)
  have 2: "pricingHistory newDrill =
       [\<lparr>basePrice = 900, entryMarkupPercentage = 0, updatedAt = 1705284000000\<rparr>]"
    by (simp add: newDrill_def)
  have 3: "updateProduct [7] 1705287600000 5 historyOnlyBody
         (catalogDb\<lparr>productDocs := [pricedHammer, newDrill]\<rparr>) =
       Inr (catalogDb\<lparr>productDocs := [pricedHammer, newDrill\<lparr>pricingHistory := []\<rparr>]\<rparr>)"
    by (simp add: updateProduct_def historyOnlyBody_def catalog_facts ids Let_def applyBody_def
        del: One_nat_def)
  have 4: "price (newDrill\<lparr>pricingHistory := []\<rparr>) = 900"
    by (simp add: ids)
  have 5: "ub_price historyResetBody = Some (price pricedHammer)"
      "ub_markupPercentage historyResetBody = Some (markupPercentage pricedHammer)"
    by (simp_all add: historyResetBody_def catalog_facts)
  have 6: "updateProduct [7] 1705287600000 1 historyResetBody catalogDb =
       Inr (catalogDb\<lparr>productDocs := [pricedHammer\<lparr>pricingHistory := []\<rparr>]\<rparr>)"
    by (simp add: updateProduct_def catalog_facts historyResetBody_def Let_def applyBody_def
        catalogDb_def del: One_nat_def)
  from 1 2 3 4 5 catalog_facts(5) 6 show ?thesis by (intro conjI)
qed

theorem update_overwrites_pricing_history_witness:
  "map pricingHistory
     (productDocs (projr (updateProduct [7] 1705287600000 5 historyOnlyBody
                            (catalogDb\<lparr>productDocs := [pricedHammer, newDrill]\<rparr>))))
   = [[\<lparr>basePrice = 100, entryMarkupPercentage = 20, updatedAt = 1700000000000\<rparr>], []]
   \<and> map pricingHistory
       (productDocs (projr (updateProduct [7] 1705287600000 1 historyResetBody catalogDb)))
     = [[]]"
  using update_overwrites_pricing_history by simp

section \<open>Authorization of the sales routes\<close>

lemma trim_Nil: "trim [] = []"
  by (simp add: trim_def)

lemma voidRoute_handled_iff:
  "(\<exists>r. fst (voidRoute voidSale st i req) = Handled r) \<longleftrightarrow>
     (\<exists>u. voidUser req = Some u \<and> role u \<in> {''admin'', ''staff''})
     \<and> (\<exists>c. superAdminCode req = Some c \<and> trim c \<noteq> [])"
  by (auto simp add: voidRoute_def authorize_def notEmpty_def trim_Nil Let_def
      split: option.splits prod.splits)

lemma voidRoute_handled:
  assumes "fst (voidRoute voidSale st i req) = Handled r"
  shows "\<exists>c. superAdminCode req = Some c
     \<and> voidRoute voidSale st i req =
         (Handled (fst (voidSale st i (req\<lparr>superAdminCode := Some (trim c)\<rparr>))),
          snd (voidSale st i (req\<lparr>superAdminCode := Some (trim c)\<rparr>)))"
  using assms
  by (auto simp add: voidRoute_def Let_def notEmpty_def trim_Nil
      split: option.splits prod.splits if_splits)

lemma voidRoute_rejected:
  assumes "\<forall>r. fst (voidRoute voidSale st i req) \<noteq> Handled r"
  shows "\<exists>status. voidRoute voidSale st i req = (Rejected status, st)"
  using assms
  by (auto simp add: voidRoute_def Let_def split: option.splits prod.splits if_splits)

lemma trim_nonempty: "trim c \<noteq> [] \<Longrightarrow> c \<noteq> []"
  using trim_Nil by blast

lemma createRoute_handled_iff:
  "(\<exists>r. fst (createRoute isEmail createSale' st req) = Handled r) \<longleftrightarrow>
     (\<exists>u. saleUser req = Some u \<and> role u \<in> {''supplier'', ''staff'', ''admin''})
     \<and> validSaleRequest isEmail req"
  by (auto simp add: createRoute_def authorize_def split: option.splits prod.splits)

lemma createRoute_handled:
  assumes "fst (createRoute isEmail createSale' st req) = Handled r"
  shows "createRoute isEmail createSale' st req =
     (Handled (fst (createSale' st (req\<lparr>customerPhone := map_option trim (customerPhone req)\<rparr>))),
      snd (createSale' st (req\<lparr>customerPhone := map_option trim (customerPhone req)\<rparr>)))"
  using assms
  by (auto simp add: createRoute_def split: option.splits prod.splits if_splits)

lemma createRoute_rejected:
  assumes "\<forall>r. fst (createRoute isEmail createSale' st req) \<noteq> Handled r"
  shows "\<exists>status. createRoute isEmail createSale' st req = (Rejected status, st)"
  using assms
  by (auto simp add: createRoute_def split: option.splits prod.splits if_splits)

text \<open>
  Claim C6.  The route that voids a sale hands a request to the controller \<open>voidSale\<close>
  exactly when its user has the role admin or staff and it carries a supervisor code
  that is not empty (nor blank); then the outcome is the controller's, run on the
  request with the code trimmed.  Every other
  request (no user, another role, a missing or blank code) is rejected with the store
  as it was, the controller not having run.  The route that creates a sale hands a
  valid request to the controller exactly for the roles supplier, staff and admin, and
  rejects every other request with the store as it was.
\<close>

theorem void_route_requires_role_and_code:
  "((\<exists>r. fst (voidRoute voidSale st i req) = Handled r) \<longleftrightarrow>
      (\<exists>u. voidUser req = Some u \<and> role u \<in> {''admin'', ''staff''})
      \<and> (\<exists>c. superAdminCode req = Some c \<and> trim c \<noteq> [] \<and> c \<noteq> []))
   \<and> ((\<exists>r. fst (voidRoute voidSale st i req) = Handled r) \<longrightarrow>
        (\<exists>c. superAdminCode req = Some c
           \<and> voidRoute voidSale st i req =
               (Handled (fst (voidSale st i (req\<lparr>superAdminCode := Some (trim c)\<rparr>))),
                snd (voidSale st i (req\<lparr>superAdminCode := Some (trim c)\<rparr>)))))
   \<and> ((\<forall>r. fst (voidRoute voidSale st i req) \<noteq> Handled r) \<longrightarrow>
        (\<exists>status. voidRoute voidSale st i req = (Rejected status, st)))
   \<and> ((\<exists>r. fst (createRoute isEmail createSale' st' sreq) = Handled r) \<longleftrightarrow>
        (\<exists>u. saleUser sreq = Some u \<and> role u \<in> {''supplier'', ''staff'', ''admin''})
        \<and> validSaleRequest isEmail sreq)
   \<and> ((\<exists>r. fst (createRoute isEmail createSale' st' sreq) = Handled r) \<longrightarrow>
        createRoute isEmail createSale' st' sreq =
          (Handled (fst (createSale' st'
                      (sreq\<lparr>customerPhone := map_option trim (customerPhone sreq)\<rparr>))),
           snd (createSale' st'
                  (sreq\<lparr>customerPhone := map_option trim (customerPhone sreq)\<rparr>))))
   \<and> ((\<forall>r. fst (createRoute isEmail createSale' st' sreq) \<noteq> Handled r) \<longrightarrow>
        (\<exists>status. createRoute isEmail createSale' st' sreq = (Rejected status, st')))"
proof (intro conjI)
  have "(\<exists>c. superAdminCode req = Some c \<and> trim c \<noteq> []) \<longleftrightarrow>
        (\<exists>c. superAdminCode req = Some c \<and> trim c \<noteq> [] \<and> c \<noteq> [])"
    using trim_nonempty by blast
  then show "(\<exists>r. fst (voidRoute voidSale st i req) = Handled r) \<longleftrightarrow>
      (\<exists>u. voidUser req = Some u \<and> role u \<in> {''admin'', ''staff''})
      \<and> (\<exists>c. superAdminCode req = Some c \<and> trim c \<noteq> [] \<and> c \<noteq> [])"
    by (simp only: voidRoute_handled_iff)
  show "(\<exists>r. fst (voidRoute voidSale st i req) = Handled r) \<longrightarrow>
        (\<exists>c. superAdminCode req = Some c
           \<and> voidRoute voidSale st i req =
               (Handled (fst (voidSale st i (req\<lparr>superAdminCode := Some (trim c)\<rparr>))),
                snd (voidSale st i (req\<lparr>superAdminCode := Some (trim c)\<rparr>))))"
    using voidRoute_handled [of voidSale st i req] by (intro impI) (erule exE)
  show "(\<forall>r. fst (voidRoute voidSale st i req) \<noteq> Handled r) \<longrightarrow>
        (\<exists>status. voidRoute voidSale st i req = (Rejected status, st))"
    using voidRoute_rejected [of voidSale st i req] by (intro impI)
  show "(\<exists>r. fst (createRoute isEmail createSale' st' sreq) = Handled r) \<longleftrightarrow>
        (\<exists>u. saleUser sreq = Some u \<and> role u \<in> {''supplier'', ''staff'', ''admin''})
        \<and> validSaleRequest isEmail sreq"
    by (rule createRoute_handled_iff)
  show "(\<exists>r. fst (createRoute isEmail createSale' st' sreq) = Handled r) \<longrightarrow>
        createRoute isEmail createSale' st' sreq =
          (Handled (fst (createSale' st'
                      (sreq\<lparr>customerPhone := map_option trim (customerPhone sreq)\<rparr>))),
           snd (createSale' st'
                  (sreq\<lparr>customerPhone := map_option trim (customerPhone sreq)\<rparr>)))"
    using createRoute_handled [of isEmail createSale' st' sreq] by (intro impI) (erule exE)
  show "(\<forall>r. fst (createRoute isEmail createSale' st' sreq) \<noteq> Handled r) \<longrightarrow>
        (\<exists>status. createRoute isEmail createSale' st' sreq = (Rejected status, st'))"
    using createRoute_rejected [of isEmail createSale' st' sreq] by (intro impI)
qed

lemma trim_examples: "trim ''override-7'' = ''override-7''" "trim ''  '' = []"
  by (simp_all add: trim_def isSpace_def)

theorem void_route_requires_role_and_code_witness:
  "voidRoute countingVoidSale 0 101 adminVoid = (Handled 101, 1)
   \<and> (\<exists>status. voidRoute countingVoidSale 0 101 blankCodeVoid = (Rejected status, 0))
   \<and> (\<exists>status. voidRoute countingVoidSale 0 101 supplierVoid = (Rejected status, 0))"
proof -
  note t = void_route_requires_role_and_code [of countingVoidSale 0 101]
  note t1 = t [THEN conjunct1]
  note t2 = t [THEN conjunct2, THEN conjunct1, THEN mp]
  note t3 = t [THEN conjunct2, THEN conjunct2, THEN conjunct1, THEN mp]
  have a: "(\<exists>u. voidUser adminVoid = Some u \<and> role u \<in> {''admin'', ''staff''})
      \<and> (\<exists>c. superAdminCode adminVoid = Some c \<and> trim c \<noteq> [] \<and> c \<noteq> [])"
    by (simp add: adminVoid_def trim_examples)
  have b: "\<not> ((\<exists>u. voidUser blankCodeVoid = Some u \<and> role u \<in> {''admin'', ''staff''})
      \<and> (\<exists>c. superAdminCode blankCodeVoid = Some c \<and> trim c \<noteq> [] \<and> c \<noteq> []))"
    by (simp add: blankCodeVoid_def trim_examples)
  have c: "\<not> ((\<exists>u. voidUser supplierVoid = Some u \<and> role u \<in> {''admin'', ''staff''})
      \<and> (\<exists>c. superAdminCode supplierVoid = Some c \<and> trim c \<noteq> [] \<and> c \<noteq> []))"
    by (simp add: supplierVoid_def)
  have "\<exists>r. fst (voidRoute countingVoidSale 0 101 adminVoid) = Handled r"
    using a by (simp only: t1 [of adminVoid])
  then have "\<exists>c. superAdminCode adminVoid = Some c
     \<and> voidRoute countingVoidSale 0 101 adminVoid =
         (Handled (fst (countingVoidSale 0 101 (adminVoid\<lparr>superAdminCode := Some (trim c)\<rparr>))),
          snd (countingVoidSale 0 101 (adminVoid\<lparr>superAdminCode := Some (trim c)\<rparr>)))"
    by (rule t2)
  then have 1: "voidRoute countingVoidSale 0 101 adminVoid = (Handled 101, 1)"
    by (auto simp add: countingVoidSale_def)
  have "\<forall>r. fst (voidRoute countingVoidSale 0 101 blankCodeVoid) \<noteq> Handled r"
    using b unfolding t1 [of blankCodeVoid, symmetric] by blast
  then have 2: "\<exists>status. voidRoute countingVoidSale 0 101 blankCodeVoid = (Rejected status, 0)"
    by (rule t3)
  have "\<forall>r. fst (voidRoute countingVoidSale 0 101 supplierVoid) \<noteq> Handled r"
    using c unfolding t1 [of supplierVoid, symmetric] by blast
  then have 3: "\<exists>status. voidRoute countingVoidSale 0 101 supplierVoid = (Rejected status, 0)"
    by (rule t3)
  from 1 2 3 show ?thesis by (intro conjI)
qed

section \<open>Sale creation is all-or-nothing\<close>

lemma updateFirst_twice:
  assumes "\<And>p. product_id (f p) = product_id p"
  shows "updateFirst i g (updateFirst i f ps) = updateFirst i (\<lambda>p. g (f p)) ps"
  by (induction ps) (simp_all add: assms)

lemma updateFirst_ident:
  assumes "\<And>p. f p = p"
  shows "updateFirst i f ps = ps"
  by (induction ps) (simp_all add: assms)

lemma increment_undoes_decrement:
  assumes "reserveAndDecrement ps i q = Inr ps'"
  shows "increment ps' i q = ps"
proof -
  from assms have "ps' = updateFirst i (\<lambda>p. p\<lparr>stockQuantity := stockQuantity p - q\<rparr>) ps"
    by (auto simp add: reserveAndDecrement_def split: option.splits if_splits)
  then show ?thesis
    by (simp add: increment_def updateFirst_twice updateFirst_ident)
qed

lemma decrementAll_rolls_back:
  assumes "rollback ps decremented = ps0"
    and "decrementAll ps decremented its = Inl (e, ps')"
  shows "ps' = ps0"
  using assms
proof (induction its arbitrary: ps decremented)
  case Nil
  then show ?case by simp
next
  case (Cons it its)
  show ?case
  proof (cases "reserveAndDecrement ps (requestProduct it) (requestQuantity it)")
    case (Inl err)
    then show ?thesis using Cons.prems by simp
  next
    case (Inr ps1)
    have "rollback ps1 (it # decremented) = ps0"
      using Cons.prems(1) increment_undoes_decrement [OF Inr] by (simp add: rollback_def)
    moreover have "decrementAll ps1 (it # decremented) its = Inl (e, ps')"
      using Cons.prems(2) Inr by simp
    ultimately show ?thesis by (rule Cons.IH)
  qed
qed

text \<open>
  Claim C1.  Sale creation is all-or-nothing.  Whenever \<open>createSale\<close> fails, whatever
  the step (a product that does not resolve, a line that exceeds the stock, a negative
  total, or a decrement that fails at the commit after earlier lines were decremented),
  the store after the operation is the store before it: no sale has been recorded and
  every product has the stock quantity it had.
\<close>

theorem failed_sale_changes_nothing:
  assumes "createSale now newId d req = (Inl e, d')"
  shows "d' = d
     \<and> saleDocs d' = saleDocs d
     \<and> map stockQuantity (productDocs d') = map stockQuantity (productDocs d)"
proof -
  have "d' = d"
  proof (cases "resolveLines (productDocs d) (requestItems req)")
    case (Inl err)
    then show ?thesis using assms by (simp add: createSale_def)
  next
    case (Inr ls)
    show ?thesis
    proof (cases "decrementAll (productDocs d) [] (requestItems req)")
      case (Inl failure)
      obtain err ps where f: "failure = (err, ps)" by (cases failure)
      have "ps = productDocs d"
        by (rule decrementAll_rolls_back [of "productDocs d" "[]" _ "requestItems req" err])
          (simp_all add: rollback_def Inl f)
      then show ?thesis
        using assms Inr Inl f by (simp add: createSale_def Let_def split: if_splits)
    next
      case ok: (Inr ps)
      then show ?thesis
        using assms Inr by (simp add: createSale_def Let_def split: if_splits)
    qed
  qed
  then show ?thesis by simp
qed

lemma example_stock:
  "stockQuantity hammer = 10" "stockQuantity saw = 3" "isActive hammer" "isActive saw"
  "markupPercentage hammer = 20" "markupPercentage saw = 10"
  by (simp_all add: hammer_def saw_def)

theorem failed_sale_changes_nothing_witness:
  "createSale 1705284000000 500 salesDb doubleLineRequest =
     (Inl (InsufficientStock 1 2), salesDb)"
proof -
  have items: "requestItems doubleLineRequest =
       [\<lparr>requestProduct = 3, requestQuantity = 2\<rparr>,
        \<lparr>requestProduct = 1, requestQuantity = 6\<rparr>,
        \<lparr>requestProduct = 1, requestQuantity = 6\<rparr>]"
      "discount doubleLineRequest = None" "requestTax doubleLineRequest = None"
    by (simp_all add: doubleLineRequest_def)
  have r: "\<exists>ls. resolveLines (productDocs salesDb) (requestItems doubleLineRequest) = Inr ls
           \<and> 0 \<le> sum_list (map subtotal ls)"
    by (simp add: items example_sales_fields example_products example_stock resolveProduct_def
        sellingPrice_def del: One_nat_def)
  have c: "\<exists>ps. decrementAll (productDocs salesDb) [] (requestItems doubleLineRequest) =
             Inl (InsufficientStock 1 2, ps)"
    by (simp add: items example_sales_fields example_products example_stock resolveProduct_def
        reserveAndDecrement_def del: One_nat_def)
  from r c have "\<exists>d'. createSale 1705284000000 500 salesDb doubleLineRequest =
       (Inl (InsufficientStock 1 2), d')"
    by (auto simp add: createSale_def Let_def items)
  then obtain d' where d': "createSale 1705284000000 500 salesDb doubleLineRequest =
       (Inl (InsufficientStock 1 2), d')" ..
  from failed_sale_changes_nothing [OF d'] have "d' = salesDb" by simp
  with d' show ?thesis by simp
qed

end
